theory Spec2Isabelle
  imports Complex_Main "HOL-Library.AList"
begin

section \<open>JavaScript numbers\<close>

text \<open>
  A JavaScript number is an IEEE 754 binary64 value.  A finite number is modelled by the
  real number it denotes; every arithmetic operation computes the exact result and
  rounds it to the nearest binary64 value, ties to the even significand, overflowing to
  an infinity (\<open>round64\<close>).  The two zeros are identified: the program under
  verification never divides by a variable, never prints a bare zero with its sign and
  compares numbers only with \<open><\<close>, \<open>></\<close> and \<open>===\<close>, none of which tell
  \<open>+0\<close> from \<open>-0\<close>.
\<close>

datatype jsnum = NaN | PosInf | NegInf | Fin real

text \<open>The number of binary digits of a positive integer.\<close>

function bitlen :: "int \<Rightarrow> int" where
  "bitlen n = (if n \<le> 0 then 0 else 1 + bitlen (n div 2))"
  by pat_completeness auto
termination
  by (relation "measure nat") auto

declare bitlen.simps [simp del]

text \<open>The number of decimal digits of a positive integer.\<close>

function declen :: "int \<Rightarrow> int" where
  "declen n = (if n \<le> 0 then 0 else 1 + declen (n div 10))"
  by pat_completeness auto
termination
  by (relation "measure nat") auto

declare declen.simps [simp del]

definition pow2 :: "int \<Rightarrow> real" where
  "pow2 e = (if 0 \<le> e then 2 ^ nat e else 1 / 2 ^ nat (- e))"

definition pow10 :: "int \<Rightarrow> real" where
  "pow10 e = (if 0 \<le> e then 10 ^ nat e else 1 / 10 ^ nat (- e))"

text \<open>
  \<open>ilog2 q\<close> is the integer \<open>e\<close> with \<open>2^e \<le> q < 2^(e+1)\<close>, and \<open>ilog10 q\<close> the
  integer \<open>e\<close> with \<open>10^e \<le> q < 10^(e+1)\<close>, for \<open>q > 0\<close>.
\<close>

definition ilog2 :: "real \<Rightarrow> int" where
  "ilog2 q = (if 1 \<le> q then bitlen \<lfloor>q\<rfloor> - 1 else - bitlen (\<lceil>1 / q\<rceil> - 1))"

definition ilog10 :: "real \<Rightarrow> int" where
  "ilog10 q = (if 1 \<le> q then declen \<lfloor>q\<rfloor> - 1 else - declen (\<lceil>1 / q\<rceil> - 1))"

text \<open>Rounding to the nearest integer, a tie to the even one: \<open>f\<close> is the floor and
  \<open>d\<close> the fractional part.\<close>

definition round_tie_even :: "int \<Rightarrow> real \<Rightarrow> int" where
  "round_tie_even f d = (if d < 1 / 2 then f else if 1 / 2 < d then f + 1
                         else if even f then f else f + 1)"

definition round_half_even :: "real \<Rightarrow> int" where
  "round_half_even r = round_tie_even \<lfloor>r\<rfloor> (r - of_int \<lfloor>r\<rfloor>)"

text \<open>
  Rounding to binary64.  The exponent of the value is clamped at -1022 (below it the
  subnormal numbers share one spacing), the significand has 53 bits, so the spacing of
  the numbers around a value of exponent \<open>e\<close> is \<open>2^(e-52)\<close>, and a rounded magnitude of
  \<open>2^1024\<close> or more is an infinity.  The steps are separate functions, each applied to
  the value of the step before.
\<close>

definition overflow64 :: "bool \<Rightarrow> real \<Rightarrow> jsnum" where
  "overflow64 neg r = (if pow2 1024 \<le> r then (if neg then NegInf else PosInf)
                       else Fin (if neg then - r else r))"

definition round_ulp :: "bool \<Rightarrow> real \<Rightarrow> real \<Rightarrow> jsnum" where
  "round_ulp neg a u = overflow64 neg (of_int (round_half_even (a / u)) * u)"

definition ulp_of :: "real \<Rightarrow> real" where
  "ulp_of a = pow2 (max (ilog2 a) (- 1022) - 52)"

definition round64 :: "real \<Rightarrow> jsnum" where
  "round64 q = (if q = 0 then Fin 0 else round_ulp (q < 0) \<bar>q\<bar> (ulp_of \<bar>q\<bar>))"


definition isNaN :: "jsnum \<Rightarrow> bool" where
  "isNaN x = (x = NaN)"

text \<open>The relational operators \<open><\<close> and \<open>></\<close>: false whenever an operand is NaN.\<close>

fun num_lt :: "jsnum \<Rightarrow> jsnum \<Rightarrow> bool" where
  "num_lt NaN _ = False"
| "num_lt _ NaN = False"
| "num_lt PosInf _ = False"
| "num_lt _ NegInf = False"
| "num_lt NegInf _ = True"
| "num_lt _ PosInf = True"
| "num_lt (Fin a) (Fin b) = (a < b)"

definition num_gt :: "jsnum \<Rightarrow> jsnum \<Rightarrow> bool" where
  "num_gt x y = num_lt y x"

text \<open>The sign of a non-NaN number: -1, 0 or 1.\<close>

fun num_sgn :: "jsnum \<Rightarrow> int" where
  "num_sgn NaN = 0"
| "num_sgn PosInf = 1"
| "num_sgn NegInf = - 1"
| "num_sgn (Fin a) = (if a < 0 then - 1 else if a = 0 then 0 else 1)"

definition inf_of_sgn :: "int \<Rightarrow> jsnum" where
  "inf_of_sgn s = (if s = 0 then NaN else if 0 < s then PosInf else NegInf)"

text \<open>Multiplication \<open>x * y\<close>: an infinity times zero is NaN.\<close>

fun num_mul :: "jsnum \<Rightarrow> jsnum \<Rightarrow> jsnum" where
  "num_mul NaN _ = NaN"
| "num_mul _ NaN = NaN"
| "num_mul (Fin a) (Fin b) = round64 (a * b)"
| "num_mul x y = inf_of_sgn (num_sgn x * num_sgn y)"

text \<open>Subtraction \<open>x - y\<close>: the difference of two equal infinities is NaN.\<close>

fun num_sub :: "jsnum \<Rightarrow> jsnum \<Rightarrow> jsnum" where
  "num_sub NaN _ = NaN"
| "num_sub _ NaN = NaN"
| "num_sub (Fin a) (Fin b) = round64 (a - b)"
| "num_sub PosInf PosInf = NaN"
| "num_sub NegInf NegInf = NaN"
| "num_sub PosInf _ = PosInf"
| "num_sub NegInf _ = NegInf"
| "num_sub (Fin a) PosInf = NegInf"
| "num_sub (Fin a) NegInf = PosInf"

text \<open>
  Division \<open>x / y\<close>.  With a zero divisor the sign of the result would depend on the sign
  of the zero; the zero is taken as \<open>+0\<close> there.  The program divides by the literal 100
  only.
\<close>

fun num_div :: "jsnum \<Rightarrow> jsnum \<Rightarrow> jsnum" where
  "num_div NaN _ = NaN"
| "num_div _ NaN = NaN"
| "num_div (Fin a) (Fin b) =
     (if b = 0 then (if a = 0 then NaN else if 0 < a then PosInf else NegInf)
      else round64 (a / b))"
| "num_div (Fin a) _ = Fin 0"
| "num_div PosInf (Fin b) = (if b < 0 then NegInf else PosInf)"
| "num_div NegInf (Fin b) = (if b < 0 then PosInf else NegInf)"
| "num_div _ _ = NaN"

text \<open>Unary minus.\<close>

fun num_neg :: "jsnum \<Rightarrow> jsnum" where
  "num_neg NaN = NaN"
| "num_neg PosInf = NegInf"
| "num_neg NegInf = PosInf"
| "num_neg (Fin a) = Fin (- a)"

section \<open>JavaScript strings\<close>

text \<open>
  A JavaScript string is a sequence of UTF-16 code units.  The model covers the strings
  whose code units are below 256 (the Latin-1 range), as lists of 8-bit characters; on
  that range \<open>trim\<close>, \<open>toLowerCase\<close> and \<open>includes\<close> are modelled exactly.
\<close>

text \<open>White space and line terminators below 256: TAB, LF, VT, FF, CR, SP, NBSP.\<close>

definition is_whitespace :: "char \<Rightarrow> bool" where
  "is_whitespace c = (of_char c \<in> {9, 10, 11, 12, 13, 32, 160 :: nat})"

definition trim :: "string \<Rightarrow> string" where
  "trim s = rev (dropWhile is_whitespace (rev (dropWhile is_whitespace s)))"

definition upper_chars :: "string" where
  "upper_chars = ''ABCDEFGHIJKLMNOPQRSTUVWXYZ'' @
     [CHR 0xC0, CHR 0xC1, CHR 0xC2, CHR 0xC3, CHR 0xC4, CHR 0xC5, CHR 0xC6, CHR 0xC7,
      CHR 0xC8, CHR 0xC9, CHR 0xCA, CHR 0xCB, CHR 0xCC, CHR 0xCD, CHR 0xCE, CHR 0xCF,
      CHR 0xD0, CHR 0xD1, CHR 0xD2, CHR 0xD3, CHR 0xD4, CHR 0xD5, CHR 0xD6,
      CHR 0xD8, CHR 0xD9, CHR 0xDA, CHR 0xDB, CHR 0xDC, CHR 0xDD, CHR 0xDE]"

definition lower_chars :: "string" where
  "lower_chars = ''abcdefghijklmnopqrstuvwxyz'' @
     [CHR 0xE0, CHR 0xE1, CHR 0xE2, CHR 0xE3, CHR 0xE4, CHR 0xE5, CHR 0xE6, CHR 0xE7,
      CHR 0xE8, CHR 0xE9, CHR 0xEA, CHR 0xEB, CHR 0xEC, CHR 0xED, CHR 0xEE, CHR 0xEF,
      CHR 0xF0, CHR 0xF1, CHR 0xF2, CHR 0xF3, CHR 0xF4, CHR 0xF5, CHR 0xF6,
      CHR 0xF8, CHR 0xF9, CHR 0xFA, CHR 0xFB, CHR 0xFC, CHR 0xFD, CHR 0xFE]"

definition lower_char :: "char \<Rightarrow> char" where
  "lower_char c = (case map_of (zip upper_chars lower_chars) c of None \<Rightarrow> c | Some d \<Rightarrow> d)"

definition toLowerCase :: "string \<Rightarrow> string" where
  "toLowerCase s = map lower_char s"

text \<open>\<open>s.startsWith(t)\<close> and \<open>s.includes(t)\<close>.\<close>

fun startsWith :: "string \<Rightarrow> string \<Rightarrow> bool" where
  "startsWith s [] = True"
| "startsWith [] (c # t) = False"
| "startsWith (d # s) (c # t) = (d = c \<and> startsWith s t)"

fun includes_str :: "string \<Rightarrow> string \<Rightarrow> bool" where
  "includes_str [] t = (t = [])"
| "includes_str (d # s) t = (startsWith (d # s) t \<or> includes_str s t)"

subsection \<open>Decimal digits\<close>

definition digit_char :: "nat \<Rightarrow> char" where
  "digit_char d = ''0123456789'' ! d"

function digits_of :: "nat \<Rightarrow> string" where
  "digits_of n = (if n < 10 then [digit_char n] else digits_of (n div 10) @ [digit_char (n mod 10)])"
  by pat_completeness auto
termination
  by (relation "measure id") auto

declare digits_of.simps [simp del]

definition is_digit :: "char \<Rightarrow> bool" where
  "is_digit c = (48 \<le> (of_char c :: nat) \<and> (of_char c :: nat) \<le> 57)"

definition digit_val :: "char \<Rightarrow> nat" where
  "digit_val c = of_char c - 48"

definition digits_val :: "string \<Rightarrow> nat" where
  "digits_val ds = foldl (\<lambda>a c. 10 * a + digit_val c) 0 ds"

subsection \<open>Number to string\<close>

text \<open>
  \<open>Number::toString\<close> (radix 10) prints the shortest decimal \<open>s * 10^p\<close> that rounds to the
  number: for \<open>k = 1, 2, ...\<close> digits, the two \<open>k\<close>-digit decimals around the number are
  tried (\<open>pick\<close>), the closer one first and the even one on a tie.  Every binary64 number
  has such a decimal of at most 17 digits; the search also stops at the exact decimal
  expansion of an integer.
\<close>

definition cand_ok :: "real \<Rightarrow> int \<Rightarrow> int \<Rightarrow> bool" where
  "cand_ok x s p = (round64 (of_int s * pow10 p) = Fin x)"

definition prefer_hi :: "real \<Rightarrow> int \<Rightarrow> int \<Rightarrow> bool" where
  "prefer_hi x p lo = (of_int (lo + 1) * pow10 p - x < x - of_int lo * pow10 p
       \<or> (of_int (lo + 1) * pow10 p - x = x - of_int lo * pow10 p \<and> odd lo))"

definition pick :: "real \<Rightarrow> int \<Rightarrow> int \<Rightarrow> (int \<times> int) option" where
  "pick x p lo =
     (if cand_ok x lo p then
        (if cand_ok x (lo + 1) p \<and> prefer_hi x p lo then Some (lo + 1, p) else Some (lo, p))
      else if cand_ok x (lo + 1) p then Some (lo + 1, p) else None)"

function shortest :: "real \<Rightarrow> int \<Rightarrow> int \<Rightarrow> int \<Rightarrow> int \<times> int" where
  "shortest x e K k =
     (if K < k then (\<lfloor>x / pow10 (e - k + 1)\<rfloor>, e - k + 1)
      else case pick x (e - k + 1) \<lfloor>x / pow10 (e - k + 1)\<rfloor> of
             Some r \<Rightarrow> r
           | None \<Rightarrow> shortest x e K (k + 1))"
  by pat_completeness auto
termination
  by (relation "measure (\<lambda>(x, e, K, k). nat (K + 1 - k))") auto

declare shortest.simps [simp del]

function strip_zeros :: "int \<times> int \<Rightarrow> int \<times> int" where
  "strip_zeros (s, p) = (if s \<noteq> 0 \<and> s mod 10 = 0 then strip_zeros (s div 10, p + 1) else (s, p))"
  by pat_completeness auto
termination
  by (relation "measure (\<lambda>(s, p). nat \<bar>s\<bar>)") auto

declare strip_zeros.simps [simp del]

definition shortest_digits :: "real \<Rightarrow> int \<times> int" where
  "shortest_digits x = strip_zeros (shortest x (ilog10 x) (declen \<lfloor>x\<rfloor> + 17) 1)"

definition exponent_str :: "int \<Rightarrow> string" where
  "exponent_str e = ''e'' @ (if 0 \<le> e then ''+'' else ''-'') @ digits_of (nat \<bar>e\<bar>)"

text \<open>The digits \<open>ds\<close> of \<open>s\<close> and \<open>n = p + k\<close>, where \<open>k\<close> is the number of digits.\<close>

definition format_digits :: "string \<Rightarrow> int \<Rightarrow> string" where
  "format_digits ds n =
     (if - 5 \<le> n \<and> n \<le> 21 then
        (if int (length ds) \<le> n then ds @ replicate (nat n - length ds) (CHR ''0'')
         else if 0 < n then take (nat n) ds @ ''.'' @ drop (nat n) ds
         else ''0.'' @ replicate (nat (- n)) (CHR ''0'') @ ds)
      else if length ds = 1 then ds @ exponent_str (n - 1)
      else take 1 ds @ ''.'' @ drop 1 ds @ exponent_str (n - 1))"

definition format_sp :: "int \<times> int \<Rightarrow> string" where
  "format_sp sp = format_digits (digits_of (nat (fst sp)))
                    (snd sp + int (length (digits_of (nat (fst sp)))))"

definition num_to_string_pos :: "real \<Rightarrow> string" where
  "num_to_string_pos x = format_sp (shortest_digits x)"

fun num_to_string :: "jsnum \<Rightarrow> string" where
  "num_to_string NaN = ''NaN''"
| "num_to_string PosInf = ''Infinity''"
| "num_to_string NegInf = ''-Infinity''"
| "num_to_string (Fin a) =
     (if a = 0 then ''0'' else if a < 0 then ''-'' @ num_to_string_pos (- a)
      else num_to_string_pos a)"

subsection \<open>\<open>Number.prototype.toFixed\<close>\<close>

text \<open>
  \<open>x.toFixed(f)\<close> for \<open>0 \<le> f \<le> 100\<close>: a number that is not finite prints as by
  \<open>toString\<close>; otherwise the sign is split off, a magnitude of \<open>10^21\<close> or more prints as
  by \<open>toString\<close>, and a smaller one as the integer \<open>n\<close> nearest to \<open>x * 10^f\<close> (the larger
  one on a tie), padded with zeros to \<open>f + 1\<close> digits, with a point before the last
  \<open>f\<close> digits.
\<close>

definition pad_zeros :: "nat \<Rightarrow> string \<Rightarrow> string" where
  "pad_zeros f m = (if length m \<le> f then replicate (f + 1 - length m) (CHR ''0'') @ m else m)"

definition insert_point :: "nat \<Rightarrow> string \<Rightarrow> string" where
  "insert_point f m = (if f = 0 then m
                       else take (length m - f) m @ ''.'' @ drop (length m - f) m)"

definition toFixed_abs :: "nat \<Rightarrow> real \<Rightarrow> string" where
  "toFixed_abs f a =
     (if 10 ^ 21 \<le> a then num_to_string_pos a
      else insert_point f (pad_zeros f (digits_of (nat \<lfloor>a * 10 ^ f + 1 / 2\<rfloor>))))"

fun toFixed :: "nat \<Rightarrow> jsnum \<Rightarrow> string" where
  "toFixed f NaN = ''NaN''"
| "toFixed f PosInf = ''Infinity''"
| "toFixed f NegInf = ''-Infinity''"
| "toFixed f (Fin a) = (if a < 0 then ''-'' @ toFixed_abs f (- a) else toFixed_abs f a)"

subsection \<open>String to number\<close>

text \<open>
  \<open>StringToNumber\<close>: the string is trimmed; the empty string is 0; a literal is a binary,
  octal or hexadecimal integer (\<open>0b\<close>, \<open>0o\<close>, \<open>0x\<close>, no sign), or an optional sign
  followed by \<open>Infinity\<close> or by decimal digits with an optional point and an optional
  exponent; its value is rounded to binary64.  Anything else is NaN.
\<close>

definition hex_val :: "char \<Rightarrow> nat option" where
  "hex_val c = (if is_digit c then Some (digit_val c)
     else if 97 \<le> (of_char c :: nat) \<and> (of_char c :: nat) \<le> 102 then Some (of_char c - 87)
     else if 65 \<le> (of_char c :: nat) \<and> (of_char c :: nat) \<le> 70 then Some (of_char c - 55)
     else None)"

definition radix_digit_ok :: "nat \<Rightarrow> char \<Rightarrow> bool" where
  "radix_digit_ok b c = (case hex_val c of None \<Rightarrow> False | Some v \<Rightarrow> v < b)"

definition radix_val :: "nat \<Rightarrow> string \<Rightarrow> nat" where
  "radix_val b ds = foldl (\<lambda>a c. b * a + the (hex_val c)) 0 ds"

definition radix_literal :: "nat \<Rightarrow> string \<Rightarrow> jsnum option" where
  "radix_literal b ds = (if ds \<noteq> [] \<and> list_all (radix_digit_ok b) ds
                         then Some (round64 (of_nat (radix_val b ds))) else None)"

fun parse_nondecimal :: "string \<Rightarrow> jsnum option" where
  "parse_nondecimal (z # c # ds) =
     (if z \<noteq> CHR ''0'' then None
      else if c = CHR ''x'' \<or> c = CHR ''X'' then radix_literal 16 ds
      else if c = CHR ''o'' \<or> c = CHR ''O'' then radix_literal 8 ds
      else if c = CHR ''b'' \<or> c = CHR ''B'' then radix_literal 2 ds
      else None)"
| "parse_nondecimal _ = None"

definition exp_digits :: "string \<Rightarrow> int option" where
  "exp_digits ds = (if ds \<noteq> [] \<and> list_all is_digit ds then Some (int (digits_val ds)) else None)"

fun parse_exp_sign :: "string \<Rightarrow> int option" where
  "parse_exp_sign [] = None"
| "parse_exp_sign (c # ds) =
     (if c = CHR ''+'' then exp_digits ds
      else if c = CHR ''-'' then map_option uminus (exp_digits ds)
      else exp_digits (c # ds))"

fun parse_exponent :: "string \<Rightarrow> int option" where
  "parse_exponent [] = Some 0"
| "parse_exponent (c # ds) =
     (if c = CHR ''e'' \<or> c = CHR ''E'' then parse_exp_sign ds else None)"

definition parse_mantissa :: "string \<Rightarrow> string \<Rightarrow> string \<Rightarrow> jsnum option" where
  "parse_mantissa ip fp r =
     (if ip = [] \<and> fp = [] then None
      else case parse_exponent r of
             None \<Rightarrow> None
           | Some e \<Rightarrow> Some (round64 (of_nat (digits_val (ip @ fp)) * pow10 (e - int (length fp)))))"

fun parse_fraction :: "string \<Rightarrow> string \<Rightarrow> jsnum option" where
  "parse_fraction ip [] = parse_mantissa ip [] []"
| "parse_fraction ip (c # r) =
     (if c = CHR ''.'' then parse_mantissa ip (takeWhile is_digit r) (dropWhile is_digit r)
      else parse_mantissa ip [] (c # r))"

definition parse_unsigned :: "string \<Rightarrow> jsnum option" where
  "parse_unsigned r = (if r = ''Infinity'' then Some PosInf
                       else parse_fraction (takeWhile is_digit r) (dropWhile is_digit r))"

fun parse_signed :: "string \<Rightarrow> jsnum option" where
  "parse_signed [] = None"
| "parse_signed (c # r) =
     (if c = CHR ''+'' then parse_unsigned r
      else if c = CHR ''-'' then map_option num_neg (parse_unsigned r)
      else parse_unsigned (c # r))"

definition parse_literal :: "string \<Rightarrow> jsnum" where
  "parse_literal t =
     (if t = [] then Fin 0
      else case parse_nondecimal t of
             Some v \<Rightarrow> v
           | None \<Rightarrow> (case parse_signed t of Some v \<Rightarrow> v | None \<Rightarrow> NaN))"

definition StringToNumber :: "string \<Rightarrow> jsnum" where
  "StringToNumber s = parse_literal (trim s)"

section \<open>Dates\<close>

text \<open>
  The time value of a Date object is an integral number of milliseconds since the epoch,
  or NaN (an invalid Date): \<open>Some t\<close> or \<open>None\<close>.  The calendar functions are those of
  ECMA-262 (Day, DayFromYear, YearFromTime, MonthFromTime, DateFromTime, MakeDay,
  MakeTime, MakeDate, TimeClip), on integers.
\<close>

definition msPerDay :: int where
  "msPerDay = 86400000"

definition Day :: "int \<Rightarrow> int" where
  "Day t = t div msPerDay"


definition isLeapYear :: "int \<Rightarrow> bool" where
  "isLeapYear y = (y mod 4 = 0 \<and> (y mod 100 \<noteq> 0 \<or> y mod 400 = 0))"

definition DaysInYear :: "int \<Rightarrow> int" where
  "DaysInYear y = (if isLeapYear y then 366 else 365)"

definition DayFromYear :: "int \<Rightarrow> int" where
  "DayFromYear y = 365 * (y - 1970) + (y - 1969) div 4 - (y - 1901) div 100 + (y - 1601) div 400"

text \<open>The year of a day number: the largest \<open>y\<close> with \<open>DayFromYear y \<le> d\<close>, searched
  upwards from a year that is not later (no year has more than 366 or less than 365
  days).\<close>

function year_search :: "int \<Rightarrow> int \<Rightarrow> int" where
  "year_search d y = (if DayFromYear (y + 1) \<le> d then year_search d (y + 1) else y)"
  by pat_completeness auto
termination
proof (relation "measure (\<lambda>(d, y). nat (d + 1 - DayFromYear (y + 1)))")
  fix d y :: int
  assume a: "DayFromYear (y + 1) \<le> d"
  have 1: "(y + 1 - 1969) div 4 \<le> (y + 1 + 1 - 1969) div 4"
    by (rule zdiv_mono1) simp_all
  have "(y + 1 + 1 - 1901) div 100 \<le> (y + 1 - 1901 + 100) div 100"
    by (rule zdiv_mono1) simp_all
  then have 2: "(y + 1 + 1 - 1901) div 100 \<le> (y + 1 - 1901) div 100 + 1"
    by simp
  have 3: "(y + 1 - 1601) div 400 \<le> (y + 1 + 1 - 1601) div 400"
    by (rule zdiv_mono1) simp_all
  have lin: "\<And>a1 a2 b1 b2 c1 c2 :: int. a1 \<le> a2 \<Longrightarrow> b2 \<le> b1 + 1 \<Longrightarrow> c1 \<le> c2 \<Longrightarrow>
      365 * (y + 1 - 1970) + a1 - b1 + c1 < 365 * (y + 1 + 1 - 1970) + a2 - b2 + c2"
    by simp
  have "DayFromYear (y + 1) < DayFromYear (y + 1 + 1)"
    unfolding DayFromYear_def by (rule lin [OF 1 2 3])
  with a show "((d, y + 1), d, y) \<in> measure (\<lambda>(d, y). nat (d + 1 - DayFromYear (y + 1)))"
    by simp
qed simp

declare year_search.simps [simp del]

definition YearFromDay :: "int \<Rightarrow> int" where
  "YearFromDay d = year_search d (1969 + (if 0 \<le> d then d div 366 else d div 365))"

definition YearFromTime :: "int \<Rightarrow> int" where
  "YearFromTime t = YearFromDay (Day t)"

definition DayWithinYear :: "int \<Rightarrow> int" where
  "DayWithinYear t = Day t - DayFromYear (YearFromTime t)"

text \<open>The day number within the year of the first day of each month (0 is January);
  \<open>l\<close> is 1 in a leap year and 0 otherwise.\<close>

definition month_start :: "int \<Rightarrow> int \<Rightarrow> int" where
  "month_start l m =
     (if m \<le> 0 then 0 else if m = 1 then 31 else if m = 2 then 59 + l
      else if m = 3 then 90 + l else if m = 4 then 120 + l else if m = 5 then 151 + l
      else if m = 6 then 181 + l else if m = 7 then 212 + l else if m = 8 then 243 + l
      else if m = 9 then 273 + l else if m = 10 then 304 + l else if m = 11 then 334 + l
      else 365 + l)"

definition leap_days :: "int \<Rightarrow> int" where
  "leap_days y = (if isLeapYear y then 1 else 0)"

definition month_of_day :: "int \<Rightarrow> int \<Rightarrow> int" where
  "month_of_day l d =
     (if d < 31 then 0 else if d < 59 + l then 1 else if d < 90 + l then 2
      else if d < 120 + l then 3 else if d < 151 + l then 4 else if d < 181 + l then 5
      else if d < 212 + l then 6 else if d < 243 + l then 7 else if d < 273 + l then 8
      else if d < 304 + l then 9 else if d < 334 + l then 10 else 11)"

definition MonthFromTime :: "int \<Rightarrow> int" where
  "MonthFromTime t = month_of_day (leap_days (YearFromTime t)) (DayWithinYear t)"

definition DateFromTime :: "int \<Rightarrow> int" where
  "DateFromTime t =
     DayWithinYear t - month_start (leap_days (YearFromTime t)) (MonthFromTime t) + 1"

definition WeekDay :: "int \<Rightarrow> int" where
  "WeekDay t = (Day t + 4) mod 7"

definition HourFromTime :: "int \<Rightarrow> int" where
  "HourFromTime t = (t div 3600000) mod 24"

definition MinFromTime :: "int \<Rightarrow> int" where
  "MinFromTime t = (t div 60000) mod 60"

definition SecFromTime :: "int \<Rightarrow> int" where
  "SecFromTime t = (t div 1000) mod 60"

definition msFromTime :: "int \<Rightarrow> int" where
  "msFromTime t = t mod 1000"







definition time_number :: "int option \<Rightarrow> jsnum" where
  "time_number tv = (case tv of None \<Rightarrow> NaN | Some t \<Rightarrow> Fin (of_int t))"

subsection \<open>\<open>Date.prototype.toISOString\<close>\<close>

definition pad_digits :: "nat \<Rightarrow> nat \<Rightarrow> string" where
  "pad_digits k n = replicate (k - length (digits_of n)) (CHR ''0'') @ digits_of n"

definition year_string :: "int \<Rightarrow> string" where
  "year_string y = (if 0 \<le> y \<and> y \<le> 9999 then pad_digits 4 (nat y)
                    else (if y < 0 then ''-'' else ''+'') @ pad_digits 6 (nat \<bar>y\<bar>))"

definition iso_string :: "int \<Rightarrow> string" where
  "iso_string t =
     year_string (YearFromTime t) @ ''-'' @ pad_digits 2 (nat (MonthFromTime t + 1)) @ ''-'' @
     pad_digits 2 (nat (DateFromTime t)) @ ''T'' @ pad_digits 2 (nat (HourFromTime t)) @ '':'' @
     pad_digits 2 (nat (MinFromTime t)) @ '':'' @ pad_digits 2 (nat (SecFromTime t)) @ ''.'' @
     pad_digits 3 (nat (msFromTime t)) @ ''Z''"

subsection \<open>\<open>Date.parse\<close>\<close>

















subsection \<open>\<open>Date.prototype.toString\<close>\<close>

text \<open>
  A Date is printed in the local time of the host.  The host's time zone gives, for a
  time value, the offset of local time from UTC in milliseconds (positive east of
  Greenwich, and changing with the time value where the zone has daylight saving time)
  and the name of the zone at that time, such as \<open>Coordinated Universal Time\<close> or
  \<open>Central European Summer Time\<close>.
\<close>

record zone =
  tz_offset :: "int \<Rightarrow> int"
  tz_name :: "int \<Rightarrow> string"

definition LocalTime :: "zone \<Rightarrow> int \<Rightarrow> int" where
  "LocalTime z t = t + tz_offset z t"

definition weekday_name :: "int \<Rightarrow> string" where
  "weekday_name d = [''Sun'', ''Mon'', ''Tue'', ''Wed'', ''Thu'', ''Fri'', ''Sat''] ! nat d"

definition month_name :: "int \<Rightarrow> string" where
  "month_name m = [''Jan'', ''Feb'', ''Mar'', ''Apr'', ''May'', ''Jun'', ''Jul'', ''Aug'',
                   ''Sep'', ''Oct'', ''Nov'', ''Dec''] ! nat m"

definition date_year_string :: "int \<Rightarrow> string" where
  "date_year_string y = (if 0 \<le> y then [] else ''-'') @ pad_digits 4 (nat \<bar>y\<bar>)"

text \<open>The date and the time of day of a local time: \<open>Tue Nov 14 2023 22:13:20\<close>.\<close>

definition local_date_time_string :: "int \<Rightarrow> string" where
  "local_date_time_string t =
     weekday_name (WeekDay t) @ '' '' @ month_name (MonthFromTime t) @ '' '' @
     pad_digits 2 (nat (DateFromTime t)) @ '' '' @ date_year_string (YearFromTime t) @ '' '' @
     pad_digits 2 (nat (HourFromTime t)) @ '':'' @ pad_digits 2 (nat (MinFromTime t)) @ '':'' @
     pad_digits 2 (nat (SecFromTime t))"

text \<open>
  The offset as \<open>+HHMM\<close> or \<open>-HHMM\<close>.  The engine of Node.js cuts the offset to whole
  minutes and prints the sign of these minutes, hours and minutes in 2 digits each.
  (\<open>TimeZoneString\<close> of ECMA-262 takes the sign of the offset itself, which is the same
  unless the offset lies strictly between minus one minute and zero.)
\<close>

definition offset_string :: "int \<Rightarrow> string" where
  "offset_string off =
     (if off \<le> - 60000 then ''-'' else ''+'') @
     pad_digits 2 (nat (\<bar>off\<bar> div 60000 div 60)) @ pad_digits 2 (nat (\<bar>off\<bar> div 60000 mod 60))"

text \<open>\<open>Invalid Date\<close> for a Date without a time value; else the local date and time,
  \<open>GMT\<close> with the offset, and the name of the zone in parentheses.\<close>

definition date_to_string :: "zone \<Rightarrow> int option \<Rightarrow> string" where
  "date_to_string z tv =
     (case tv of
        None \<Rightarrow> ''Invalid Date''
      | Some t \<Rightarrow>
          local_date_time_string (LocalTime z t) @ '' GMT'' @ offset_string (tz_offset z t) @
          '' ('' @ tz_name z t @ '')'')"

section \<open>JavaScript values\<close>

text \<open>
  The errors of the program.  The source throws \<open>Error\<close> objects that differ in their
  message only; the specification sorts them into three kinds, and each \<open>throw\<close> of the
  source is modelled by the constructor of its kind, carrying the message.  \<open>TypeError\<close>
  and \<open>RangeError\<close> are thrown by the language itself.
\<close>

datatype error =
    ValidationError string
  | NotFoundError string
  | TypeMismatchError string
  | TypeError
  | RangeError

type_synonym ref = nat

text \<open>
  Primitive values, and objects.  An object has an identity (a reference) and is
  characterised by what its conversion to a primitive yields, with hint number and with
  hint string: an error (the conversion throws) or a primitive.  Conversions have no
  other effect.  A Date object has an identity and a time value.  Objects have no further
  methods; in particular only a Date has \<open>toISOString\<close>.
\<close>

datatype prim =
    Undefined
  | Null
  | Boolean bool
  | Number jsnum
  | String string
  | BigInt int
  | Symbol ref string

datatype jsval =
    Prim prim
  | Object ref "error + prim" "error + prim"
  | Date ref "int option"

fun typeof :: "jsval \<Rightarrow> string" where
  "typeof (Prim Undefined) = ''undefined''"
| "typeof (Prim Null) = ''object''"
| "typeof (Prim (Boolean b)) = ''boolean''"
| "typeof (Prim (Number x)) = ''number''"
| "typeof (Prim (String s)) = ''string''"
| "typeof (Prim (BigInt n)) = ''bigint''"
| "typeof (Prim (Symbol r d)) = ''symbol''"
| "typeof (Object r pn ps) = ''object''"
| "typeof (Date r tv) = ''object''"

text \<open>\<open>ToBoolean\<close>: the falsy values are undefined, null, false, NaN, 0, the empty string
  and \<open>0n\<close>.\<close>

fun ToBoolean :: "jsval \<Rightarrow> bool" where
  "ToBoolean (Prim Undefined) = False"
| "ToBoolean (Prim Null) = False"
| "ToBoolean (Prim (Boolean b)) = b"
| "ToBoolean (Prim (Number x)) = (x \<noteq> NaN \<and> x \<noteq> Fin 0)"
| "ToBoolean (Prim (String s)) = (s \<noteq> [])"
| "ToBoolean (Prim (BigInt n)) = (n \<noteq> 0)"
| "ToBoolean (Prim (Symbol r d)) = True"
| "ToBoolean (Object r pn ps) = True"
| "ToBoolean (Date r tv) = True"

text \<open>The function \<open>Number(v)\<close>.\<close>

fun Number_prim :: "prim \<Rightarrow> error + jsnum" where
  "Number_prim Undefined = Inr NaN"
| "Number_prim Null = Inr (Fin 0)"
| "Number_prim (Boolean b) = Inr (Fin (if b then 1 else 0))"
| "Number_prim (Number x) = Inr x"
| "Number_prim (String s) = Inr (StringToNumber s)"
| "Number_prim (BigInt n) = Inr (round64 (of_int n))"
| "Number_prim (Symbol r d) = Inl TypeError"

fun Number_fn :: "jsval \<Rightarrow> error + jsnum" where
  "Number_fn (Prim p) = Number_prim p"
| "Number_fn (Object r pn ps) = (case pn of Inl e \<Rightarrow> Inl e | Inr p \<Rightarrow> Number_prim p)"
| "Number_fn (Date r tv) = Inr (time_number tv)"


text \<open>The function \<open>String(v)\<close>; the abstract operation \<open>ToString\<close> throws on a Symbol,
  the function prints it.  A Date is printed by \<open>Date.prototype.toString\<close>, in the time
  zone \<open>z\<close> of the host.\<close>

definition bigint_string :: "int \<Rightarrow> string" where
  "bigint_string n = (if n < 0 then ''-'' else []) @ digits_of (nat \<bar>n\<bar>)"

fun ToString_prim :: "prim \<Rightarrow> error + string" where
  "ToString_prim Undefined = Inr ''undefined''"
| "ToString_prim Null = Inr ''null''"
| "ToString_prim (Boolean b) = Inr (if b then ''true'' else ''false'')"
| "ToString_prim (Number x) = Inr (num_to_string x)"
| "ToString_prim (String s) = Inr s"
| "ToString_prim (BigInt n) = Inr (bigint_string n)"
| "ToString_prim (Symbol r d) = Inl TypeError"

fun String_fn :: "zone \<Rightarrow> jsval \<Rightarrow> error + string" where
  "String_fn z (Prim (Symbol r d)) = Inr (''Symbol('' @ d @ '')'')"
| "String_fn z (Prim p) = ToString_prim p"
| "String_fn z (Object r pn ps) = (case ps of Inl e \<Rightarrow> Inl e | Inr p \<Rightarrow> ToString_prim p)"
| "String_fn z (Date r tv) = Inr (date_to_string z tv)"

text \<open>Strict equality \<open>===\<close>: NaN differs from itself; objects are equal when they are
  the same object.  The keys of a \<open>Map\<close> are compared as by \<open>===\<close>, but NaN is equal to
  itself there: that is equality of the model's values.\<close>

definition strict_eq :: "jsval \<Rightarrow> jsval \<Rightarrow> bool" where
  "strict_eq a b = (a = b \<and> a \<noteq> Prim (Number NaN))"

text \<open>The operator \<open>a ?? b\<close>.\<close>

definition nullish :: "jsval \<Rightarrow> bool" where
  "nullish v = (v = Prim Undefined \<or> v = Prim Null)"

definition coalesce :: "jsval \<Rightarrow> jsval \<Rightarrow> jsval" where
  "coalesce a b = (if nullish a then b else a)"

text \<open>\<open>s.slice(a, b)\<close> for \<open>0 \<le> a \<le> b\<close>.\<close>

definition slice :: "nat \<Rightarrow> nat \<Rightarrow> string \<Rightarrow> string" where
  "slice a b s = take (b - a) (drop a s)"

text \<open>
  What a call draws from its environment: the string \<open>Math.random().toString(36)\<close>
  (\<open>0.\<close> and digits in base 36), the reference of the next object it creates, and the
  clock in milliseconds.
\<close>

record env =
  random36 :: string
  fresh_ref :: ref
  now :: int

text \<open>\<open>new Date()\<close> and \<open>new Date(v)\<close>.  For a Date argument the time value is copied; any
  other value is converted to a primitive (for an object as with hint number), a string
  is parsed and anything else converted to a number and clipped.\<close>

definition Date_now :: "env \<Rightarrow> jsval" where
  "Date_now en = Date (fresh_ref en) (Some (now en))"





section \<open>Product\<close>

text \<open>
  The private fields of a Product.  After a successful construction \<open>#name\<close> is a string
  and \<open>#price\<close> a number; \<open>#id\<close>, \<open>#owner\<close> and \<open>#createdAt\<close> hold whatever value was
  passed, or their defaults.
\<close>

record product =
  p_id :: jsval
  p_name :: string
  p_price :: jsnum
  p_owner :: jsval
  p_createdAt :: jsval

text \<open>A plain object with the properties \<open>id\<close>, \<open>name\<close>, \<open>price\<close>, \<open>owner\<close> and
  \<open>createdAt\<close>, a missing property being undefined: the argument of the constructor and
  of \<open>fromJSON\<close>, and the result of \<open>toJSON\<close>.\<close>

record product_fields =
  f_id :: jsval
  f_name :: jsval
  f_price :: jsval
  f_owner :: jsval
  f_createdAt :: jsval

definition generateId :: "env \<Rightarrow> string" where
  "generateId en = ''p_'' @ slice 2 10 (random36 en)"

definition string_of :: "jsval \<Rightarrow> string" where
  "string_of v = (case v of Prim (String s) \<Rightarrow> s | _ \<Rightarrow> [])"

text \<open>The setters: the value they store, or the error they throw before storing.\<close>

definition name_setter :: "jsval \<Rightarrow> error + string" where
  "name_setter val =
     (if \<not> ToBoolean val \<or> typeof val \<noteq> ''string'' \<or> length (trim (string_of val)) < 2
      then Inl (ValidationError ''Invalid product name (2+ chars required).'')
      else Inr (trim (string_of val)))"

definition price_check :: "jsnum \<Rightarrow> error + jsnum" where
  "price_check num =
     (if isNaN num \<or> num_lt num (Fin 0)
      then Inl (ValidationError ''Invalid price (must be >= 0).'')
      else Inr (StringToNumber (toFixed 2 num)))"

definition price_setter :: "jsval \<Rightarrow> error + jsnum" where
  "price_setter val = (case Number_fn val of Inl e \<Rightarrow> Inl e | Inr num \<Rightarrow> price_check num)"

definition set_name :: "jsval \<Rightarrow> product \<Rightarrow> error + product" where
  "set_name val p = (case name_setter val of Inl e \<Rightarrow> Inl e | Inr n \<Rightarrow> Inr (p\<lparr>p_name := n\<rparr>))"

definition set_price :: "jsval \<Rightarrow> product \<Rightarrow> error + product" where
  "set_price val p = (case price_setter val of Inl e \<Rightarrow> Inl e | Inr x \<Rightarrow> Inr (p\<lparr>p_price := x\<rparr>))"

text \<open>The constructor: the name is validated before the price; the object exists for
  the caller only when both setters have returned.\<close>

definition Product_new :: "env \<Rightarrow> product_fields \<Rightarrow> error + product" where
  "Product_new en f =
     (case name_setter (f_name f) of
        Inl e \<Rightarrow> Inl e
      | Inr n \<Rightarrow>
          (case price_setter (f_price f) of
             Inl e \<Rightarrow> Inl e
           | Inr x \<Rightarrow>
               Inr \<lparr>p_id = coalesce (f_id f) (Prim (String (generateId en))),
                    p_name = n,
                    p_price = x,
                    p_owner = coalesce (f_owner f) (Prim (String ''unknown'')),
                    p_createdAt = coalesce (f_createdAt f) (Date_now en)\<rparr>))"

text \<open>\<open>applyDiscount\<close> returns the new state of the Product and the new price.\<close>

definition discounted :: "jsnum \<Rightarrow> jsnum \<Rightarrow> jsnum" where
  "discounted x pc = StringToNumber (toFixed 2 (num_mul x (num_sub (Fin 1) (num_div pc (Fin 100)))))"

definition discount_check :: "jsnum \<Rightarrow> product \<Rightarrow> error + product \<times> jsnum" where
  "discount_check pc p =
     (if isNaN pc \<or> num_lt pc (Fin 0) \<or> num_gt pc (Fin 100)
      then Inl (ValidationError ''Discount percent must be between 0 and 100.'')
      else Inr (p\<lparr>p_price := discounted (p_price p) pc\<rparr>, discounted (p_price p) pc))"

definition applyDiscount :: "jsval \<Rightarrow> product \<Rightarrow> error + product \<times> jsnum" where
  "applyDiscount percent p =
     (case Number_fn percent of Inl e \<Rightarrow> Inl e | Inr pc \<Rightarrow> discount_check pc p)"




section \<open>User and AdminUser\<close>

text \<open>
  A User owns the array of its products.  A Product object that a caller also stores
  elsewhere (in a repository) is modelled by a copy there: no claim verified here depends
  on a mutation through one holder being seen through the other.
\<close>

record user =
  u_name :: jsval
  u_email :: jsval
  u_role :: jsval
  u_products :: "product list"

definition User_new :: "jsval \<Rightarrow> jsval \<Rightarrow> jsval \<Rightarrow> user" where
  "User_new name email role =
     \<lparr>u_name = name, u_email = email,
      u_role = (if role = Prim Undefined then Prim (String ''user'') else role),
      u_products = []\<rparr>"

definition isAdmin :: "user \<Rightarrow> bool" where
  "isAdmin u = strict_eq (u_role u) (Prim (String ''admin''))"

definition addProduct :: "env \<Rightarrow> jsval \<Rightarrow> jsval \<Rightarrow> user \<Rightarrow> error + product \<times> user" where
  "addProduct en name price u =
     (case Product_new en \<lparr>f_id = Prim Undefined, f_name = name, f_price = price,
                           f_owner = u_name u, f_createdAt = Prim Undefined\<rparr> of
        Inl e \<Rightarrow> Inl e
      | Inr p \<Rightarrow> Inr (p, u\<lparr>u_products := u_products u @ [p]\<rparr>))"

definition listProducts :: "user \<Rightarrow> product list" where
  "listProducts u = u_products u"

definition name_matches :: "string \<Rightarrow> product \<Rightarrow> bool" where
  "name_matches term p = includes_str (toLowerCase (p_name p)) term"


text \<open>\<open>findIndex\<close>: the first index at which the predicate holds, \<open>None\<close> for -1.\<close>

primrec findIndex :: "('a \<Rightarrow> bool) \<Rightarrow> 'a list \<Rightarrow> nat option" where
  "findIndex P [] = None"
| "findIndex P (x # xs) = (if P x then Some 0 else map_option Suc (findIndex P xs))"

definition has_id :: "jsval \<Rightarrow> product \<Rightarrow> bool" where
  "has_id productId p = strict_eq (p_id p) productId"

definition updateProductPrice :: "jsval \<Rightarrow> jsval \<Rightarrow> user \<Rightarrow> error + product \<times> user" where
  "updateProductPrice productId newPrice u =
     (case findIndex (has_id productId) (u_products u) of
        None \<Rightarrow> Inl (NotFoundError ''Product not found'')
      | Some i \<Rightarrow>
          (case set_price newPrice (u_products u ! i) of
             Inl e \<Rightarrow> Inl e
           | Inr p \<Rightarrow> Inr (p, u\<lparr>u_products := (u_products u)[i := p]\<rparr>)))"

text \<open>\<open>splice(idx, 1)\<close> removes the element at \<open>idx\<close> and returns it.\<close>

definition deleteProduct :: "jsval \<Rightarrow> user \<Rightarrow> error + product \<times> user" where
  "deleteProduct productId u =
     (case findIndex (has_id productId) (u_products u) of
        None \<Rightarrow> Inl (NotFoundError ''Product not found'')
      | Some idx \<Rightarrow>
          Inr (u_products u ! idx,
               u\<lparr>u_products := take idx (u_products u) @ drop (Suc idx) (u_products u)\<rparr>))"

text \<open>An AdminUser is a User constructed with the role \<open>admin\<close>; both are instances of
  User.  The argument \<open>targetUser\<close> is an instance of User or some other value.\<close>

definition AdminUser_new :: "jsval \<Rightarrow> jsval \<Rightarrow> user" where
  "AdminUser_new name email = User_new name email (Prim (String ''admin''))"

datatype target = UserInstance user | NonUser jsval

text \<open>\<open>deleteProductFromUser\<close> returns the deleted Product and the new state of the
  target; when the target is the admin itself, that is the new state of the admin.\<close>

definition deleteProductFromUser :: "user \<Rightarrow> target \<Rightarrow> jsval \<Rightarrow> error + product \<times> user" where
  "deleteProductFromUser this targetUser productId =
     (case targetUser of
        NonUser v \<Rightarrow> Inl (TypeMismatchError ''Target must be a User instance.'')
      | UserInstance t \<Rightarrow> deleteProduct productId t)"

section \<open>ProductRepository and ProductService\<close>

text \<open>A \<open>Map\<close> keeps its entries in insertion order; \<open>set\<close> on a present key replaces the
  value in place.\<close>

type_synonym ('k, 'v) js_map = "('k \<times> 'v) list"

definition Map_get :: "'k \<Rightarrow> ('k, 'v) js_map \<Rightarrow> 'v option" where
  "Map_get k m = map_of m k"

definition Map_has :: "'k \<Rightarrow> ('k, 'v) js_map \<Rightarrow> bool" where
  "Map_has k m = (map_of m k \<noteq> None)"

definition Map_set :: "'k \<Rightarrow> 'v \<Rightarrow> ('k, 'v) js_map \<Rightarrow> ('k, 'v) js_map" where
  "Map_set k v m = AList.update k v m"

definition Map_delete :: "'k \<Rightarrow> ('k, 'v) js_map \<Rightarrow> bool \<times> ('k, 'v) js_map" where
  "Map_delete k m = (Map_has k m, AList.delete k m)"

definition Map_values :: "('k, 'v) js_map \<Rightarrow> 'v list" where
  "Map_values m = map snd m"

record productRepository =
  store :: "(jsval, product) js_map"

definition ProductRepository_new :: productRepository where
  "ProductRepository_new = \<lparr>store = []\<rparr>"

text \<open>The argument of \<open>create\<close> and \<open>update\<close>: an instance of Product or some other
  value.\<close>

datatype product_arg = ProductInstance product | NonProduct jsval

definition repo_create :: "product_arg \<Rightarrow> productRepository \<Rightarrow> error + product \<times> productRepository" where
  "repo_create a r =
     (case a of
        NonProduct v \<Rightarrow> Inl (TypeMismatchError ''Expected Product instance'')
      | ProductInstance p \<Rightarrow> Inr (p, r\<lparr>store := Map_set (p_id p) p (store r)\<rparr>))"

definition repo_getById :: "jsval \<Rightarrow> productRepository \<Rightarrow> product option" where
  "repo_getById k r = Map_get k (store r)"

definition repo_getAll :: "productRepository \<Rightarrow> product list" where
  "repo_getAll r = Map_values (store r)"

definition repo_update :: "product_arg \<Rightarrow> productRepository \<Rightarrow> error + product \<times> productRepository" where
  "repo_update a r =
     (case a of
        NonProduct v \<Rightarrow> Inl (TypeMismatchError ''Expected Product instance'')
      | ProductInstance p \<Rightarrow>
          if \<not> Map_has (p_id p) (store r) then Inl (NotFoundError ''Product not found'')
          else Inr (p, r\<lparr>store := Map_set (p_id p) p (store r)\<rparr>))"

definition repo_delete :: "jsval \<Rightarrow> productRepository \<Rightarrow> bool \<times> productRepository" where
  "repo_delete k r = (fst (Map_delete k (store r)), r\<lparr>store := snd (Map_delete k (store r))\<rparr>)"

definition repo_findByNameLike :: "zone \<Rightarrow> jsval \<Rightarrow> productRepository \<Rightarrow> error + product list" where
  "repo_findByNameLike z q r =
     (case String_fn z q of
        Inl e \<Rightarrow> Inl e
      | Inr s \<Rightarrow> Inr (filter (name_matches (toLowerCase s)) (repo_getAll r)))"

text \<open>
  The service holds one repository.  \<open>changePrice\<close> and \<open>discount\<close> change the Product
  object that the repository holds, in place, before they call \<open>update\<close>: the entry under
  the key of the lookup has the new state whatever \<open>update\<close> does (\<open>mutate_stored\<close>).  They
  return the result or the error, and the state of the service after the call.
\<close>

record productService =
  s_repo :: productRepository

definition ProductService_new :: "productRepository \<Rightarrow> productService" where
  "ProductService_new r = \<lparr>s_repo = r\<rparr>"

definition addNewProduct ::
  "env \<Rightarrow> jsval \<Rightarrow> jsval \<Rightarrow> jsval \<Rightarrow> productService \<Rightarrow> error + product \<times> productService" where
  "addNewProduct en name price owner sv =
     (case Product_new en \<lparr>f_id = Prim Undefined, f_name = name, f_price = price,
                           f_owner = owner, f_createdAt = Prim Undefined\<rparr> of
        Inl e \<Rightarrow> Inl e
      | Inr p \<Rightarrow>
          (case repo_create (ProductInstance p) (s_repo sv) of
             Inl e \<Rightarrow> Inl e
           | Inr (q, r) \<Rightarrow> Inr (q, sv\<lparr>s_repo := r\<rparr>)))"

definition listAll :: "productService \<Rightarrow> product list" where
  "listAll sv = repo_getAll (s_repo sv)"

definition search :: "zone \<Rightarrow> jsval \<Rightarrow> productService \<Rightarrow> error + product list" where
  "search z term sv = repo_findByNameLike z term (s_repo sv)"

definition mutate_stored :: "jsval \<Rightarrow> product \<Rightarrow> productService \<Rightarrow> productService" where
  "mutate_stored k p sv = sv\<lparr>s_repo := (s_repo sv)\<lparr>store := Map_set k p (store (s_repo sv))\<rparr>\<rparr>"

definition persist :: "product \<Rightarrow> productService \<Rightarrow> (error + product) \<times> productService" where
  "persist p sv =
     (case repo_update (ProductInstance p) (s_repo sv) of
        Inl e \<Rightarrow> (Inl e, sv)
      | Inr (q, r) \<Rightarrow> (Inr q, sv\<lparr>s_repo := r\<rparr>))"

definition changePrice :: "jsval \<Rightarrow> jsval \<Rightarrow> productService \<Rightarrow> (error + product) \<times> productService" where
  "changePrice k newPrice sv =
     (case repo_getById k (s_repo sv) of
        None \<Rightarrow> (Inl (NotFoundError ''Product not found''), sv)
      | Some p \<Rightarrow>
          (case set_price newPrice p of
             Inl e \<Rightarrow> (Inl e, sv)
           | Inr p' \<Rightarrow> persist p' (mutate_stored k p' sv)))"

definition discount :: "jsval \<Rightarrow> jsval \<Rightarrow> productService \<Rightarrow> (error + product) \<times> productService" where
  "discount k percent sv =
     (case repo_getById k (s_repo sv) of
        None \<Rightarrow> (Inl (NotFoundError ''Product not found''), sv)
      | Some p \<Rightarrow>
          (case applyDiscount percent p of
             Inl e \<Rightarrow> (Inl e, sv)
           | Inr (p', x) \<Rightarrow> persist p' (mutate_stored k p' sv)))"

definition remove :: "jsval \<Rightarrow> productService \<Rightarrow> error + bool \<times> productService" where
  "remove k sv =
     (if \<not> fst (repo_delete k (s_repo sv)) then Inl (NotFoundError ''Product not found'')
      else Inr (fst (repo_delete k (s_repo sv)), sv\<lparr>s_repo := snd (repo_delete k (s_repo sv))\<rparr>))"

section \<open>Well-formed states\<close>





text \<open>The invariant of the claims about Product: the price is not NaN and not negative
  (which is \<open>price >= 0\<close> in JavaScript), and the trimmed name has at least 2
  characters.\<close>

definition product_inv :: "product \<Rightarrow> bool" where
  "product_inv p =
     (\<not> isNaN (p_price p) \<and> \<not> num_lt (p_price p) (Fin 0) \<and> 2 \<le> length (trim (p_name p)))"

section \<open>Example values\<close>

text \<open>The values of the demo of the source: the user Mona with three products, the admin
  Ziad, and what the environment supplied when each product was made.\<close>

definition env_a :: env where
  "env_a = \<lparr>random36 = ''0.a1b2c3d4e5f'', fresh_ref = 1, now = 1700000000000\<rparr>"


definition env_c :: env where
  "env_c = \<lparr>random36 = ''0.k3'', fresh_ref = 3, now = 1700000000002\<rparr>"

definition mona :: user where
  "mona = User_new (Prim (String ''Mona'')) (Prim (String ''mona@example.com'')) (Prim Undefined)"

definition ziad :: user where
  "ziad = AdminUser_new (Prim (String ''Ziad'')) (Prim (String ''ziad@example.com''))"

definition phone_case :: product where
  "phone_case = \<lparr>p_id = Prim (String ''p_a1b2c3d4''), p_name = ''Phone Case'', p_price = Fin 10,
                  p_owner = Prim (String ''Mona''), p_createdAt = Date 1 (Some 1700000000000)\<rparr>"

definition power_bank :: product where
  "power_bank = \<lparr>p_id = Prim (String ''p_zz9y8x7w''), p_name = ''Power Bank'', p_price = Fin 30,
                  p_owner = Prim (String ''Mona''), p_createdAt = Date 2 (Some 1700000000001)\<rparr>"

definition shoes :: product where
  "shoes = \<lparr>p_id = Prim (String ''p_k3''), p_name = ''Shoes'', p_price = Fin 55,
             p_owner = Prim (String ''Mona''), p_createdAt = Date 3 (Some 1700000000002)\<rparr>"

definition ziad_case :: product where
  "ziad_case = \<lparr>p_id = Prim (String ''p_a1b2c3d4''), p_name = ''Phone Case'', p_price = Fin 10,
                 p_owner = Prim (String ''Ziad''), p_createdAt = Date 1 (Some 1700000000000)\<rparr>"

definition ziad1 :: user where
  "ziad1 = ziad\<lparr>u_products := [ziad_case]\<rparr>"

definition infinite_fields :: product_fields where
  "infinite_fields = \<lparr>f_id = Prim Undefined, f_name = Prim (String ''Phone Case''),
                       f_price = Prim (Number PosInf), f_owner = Prim Undefined,
                       f_createdAt = Prim Undefined\<rparr>"

definition priceless :: product where
  "priceless = \<lparr>p_id = Prim (String ''p_a1b2c3d4''), p_name = ''Phone Case'', p_price = PosInf,
                 p_owner = Prim (String ''unknown''), p_createdAt = Date 1 (Some 1700000000000)\<rparr>"

text \<open>A second draw of \<open>Math.random\<close> that differs from that of \<open>env_a\<close> after the eighth
  digit.\<close>

definition env_a' :: env where
  "env_a' = \<lparr>random36 = ''0.a1b2c3d4zzz'', fresh_ref = 4, now = 1700000000003\<rparr>"

definition case_fields :: product_fields where
  "case_fields = \<lparr>f_id = Prim Undefined, f_name = Prim (String ''Phone Case''),
                   f_price = Prim (Number (Fin 10)), f_owner = Prim (String ''Mona''),
                   f_createdAt = Prim Undefined\<rparr>"

definition phone_case2 :: product where
  "phone_case2 = phone_case\<lparr>p_createdAt := Date 4 (Some 1700000000003)\<rparr>"

text \<open>The service scenario: an empty repository, the Watch, and its state after the
  discount of 10 percent.\<close>

definition env_w :: env where
  "env_w = \<lparr>random36 = ''0.w4tch0001xy'', fresh_ref = 5, now = 1700000000005\<rparr>"

definition watch :: product where
  "watch = \<lparr>p_id = Prim (String ''p_w4tch000''), p_name = ''Watch'', p_price = Fin 120,
             p_owner = Prim (String ''Mona''), p_createdAt = Date 5 (Some 1700000000005)\<rparr>"

definition service0 :: productService where
  "service0 = ProductService_new ProductRepository_new"

definition service1 :: productService where
  "service1 = \<lparr>s_repo = \<lparr>store = [(Prim (String ''p_w4tch000''), watch)]\<rparr>\<rparr>"

definition service2 :: productService where
  "service2 = \<lparr>s_repo = \<lparr>store = [(Prim (String ''p_w4tch000''), watch\<lparr>p_price := Fin 108\<rparr>)]\<rparr>\<rparr>"







definition zone_india :: zone where
  "zone_india = \<lparr>tz_offset = (\<lambda>t. 19800000), tz_name = (\<lambda>t. ''India Standard Time'')\<rparr>"

definition zone_arizona :: zone where
  "zone_arizona = \<lparr>tz_offset = (\<lambda>t. - 25200000), tz_name = (\<lambda>t. ''Mountain Standard Time'')\<rparr>"




definition mona3 :: user where
  "mona3 = mona\<lparr>u_products := [phone_case, power_bank, shoes]\<rparr>"

section \<open>Properties of the string conversions\<close>

subsection \<open>Decimal digits\<close>

lemma digit_char_is_digit: "d < 10 \<Longrightarrow> is_digit (digit_char d)"
proof -
  assume "d < 10"
  then have "d \<in> {0,1,2,3,4,5,6,7,8,9}" by auto
  then show ?thesis by (auto simp: digit_char_def is_digit_def)
qed

lemma digit_val_digit_char: "d < 10 \<Longrightarrow> digit_val (digit_char d) = d"
proof -
  assume "d < 10"
  then have "d \<in> {0,1,2,3,4,5,6,7,8,9}" by auto
  then show ?thesis by (auto simp: digit_char_def digit_val_def)
qed

lemma digits_of_all_digits: "list_all is_digit (digits_of n)"
proof (induction n rule: digits_of.induct)
  case (1 n)
  show ?case
  proof (cases "n < 10")
    case True
    then show ?thesis by (subst digits_of.simps) (simp add: digit_char_is_digit)
  next
    case False
    with 1 show ?thesis by (subst digits_of.simps) (simp add: digit_char_is_digit)
  qed
qed

lemma digits_of_nonempty: "digits_of n \<noteq> []"
  by (subst digits_of.simps) simp

lemma digits_val_snoc: "digits_val (ds @ [c]) = 10 * digits_val ds + digit_val c"
  by (simp add: digits_val_def)

lemma digits_val_digits_of: "digits_val (digits_of n) = n"
proof (induction n rule: digits_of.induct)
  case (1 n)
  show ?case
  proof (cases "n < 10")
    case True
    then show ?thesis
      by (subst digits_of.simps) (simp add: digits_val_def digit_val_digit_char)
  next
    case False
    with 1 show ?thesis
      by (subst digits_of.simps) (simp add: digits_val_snoc digit_val_digit_char)
  qed
qed

lemma digits_val_zeros: "digits_val (replicate k (CHR ''0'') @ ds) = digits_val ds"
proof -
  have "foldl (\<lambda>a c. 10 * a + digit_val c) 0 (replicate k (CHR ''0'')) = 0"
    by (induction k) (simp_all add: digit_val_def)
  then show ?thesis by (simp add: digits_val_def)
qed

subsection \<open>Parsing what \<open>toFixed\<close> prints\<close>

lemma is_digit_not_ws: "is_digit c \<Longrightarrow> \<not> is_whitespace c"
  by (auto simp: is_digit_def is_whitespace_def)

lemma trim_id: "s \<noteq> [] \<Longrightarrow> \<not> is_whitespace (hd s) \<Longrightarrow> \<not> is_whitespace (last s) \<Longrightarrow> trim s = s"
proof -
  assume a: "s \<noteq> []" "\<not> is_whitespace (hd s)" "\<not> is_whitespace (last s)"
  then have 1: "dropWhile is_whitespace s = s"
    by (cases s) simp_all
  from a have "rev s \<noteq> []" "\<not> is_whitespace (hd (rev s))"
    by (simp_all add: hd_rev)
  then have "dropWhile is_whitespace (rev s) = rev s"
    by (cases "rev s") simp_all
  with 1 show ?thesis by (simp add: trim_def)
qed

lemma takeWhile_digits_point:
  "list_all is_digit ds \<Longrightarrow> takeWhile is_digit (ds @ CHR ''.'' # r) = ds"
  by (induction ds) (simp_all add: is_digit_def)

lemma dropWhile_digits_point:
  "list_all is_digit ds \<Longrightarrow> dropWhile is_digit (ds @ CHR ''.'' # r) = CHR ''.'' # r"
  by (induction ds) (simp_all add: is_digit_def)

lemma takeWhile_all: "list_all P ds \<Longrightarrow> takeWhile P ds = ds"
  by (induction ds) simp_all

lemma dropWhile_all: "list_all P ds \<Longrightarrow> dropWhile P ds = []"
  by (induction ds) simp_all

lemma parse_nondecimal_digit2:
  assumes "is_digit c \<or> c = CHR ''.''"
  shows "parse_nondecimal (z # c # r) = None"
proof -
  have "c \<noteq> CHR ''x'' \<and> c \<noteq> CHR ''X'' \<and> c \<noteq> CHR ''o'' \<and> c \<noteq> CHR ''O'' \<and> c \<noteq> CHR ''b'' \<and> c \<noteq> CHR ''B''"
    using assms by (auto simp: is_digit_def)
  then show ?thesis by simp
qed

text \<open>A string of digits, a point and digits denotes the decimal it spells.\<close>

lemma StringToNumber_decimal:
  assumes "ip \<noteq> []" "list_all is_digit ip" "list_all is_digit fp"
  shows "StringToNumber (ip @ CHR ''.'' # fp) =
         round64 (of_nat (digits_val (ip @ fp)) * pow10 (- int (length fp)))"
proof -
  obtain z ip' where ip: "ip = z # ip'" using assms(1) by (cases ip) auto
  have zd: "is_digit z" using assms(2) ip by simp
  let ?s = "ip @ CHR ''.'' # fp"
  have nd: "\<not> is_whitespace (CHR ''.'')" by (simp add: is_whitespace_def)
  have "\<not> is_whitespace (last ?s)"
    using assms(3) nd by (cases fp rule: rev_cases) (auto simp: is_digit_not_ws)
  moreover have "\<not> is_whitespace (hd ?s)" using zd ip by (simp add: is_digit_not_ws)
  ultimately have t: "trim ?s = ?s" by (intro trim_id) simp_all
  have nondec: "parse_nondecimal ?s = None"
  proof (cases ip')
    case Nil
    then show ?thesis using ip by (simp del: parse_nondecimal.simps add: parse_nondecimal_digit2)
  next
    case (Cons c r)
    then have "is_digit c" using assms(2) ip by simp
    then show ?thesis using ip Cons by (simp del: parse_nondecimal.simps add: parse_nondecimal_digit2)
  qed
  have zsign: "z \<noteq> CHR ''+''" "z \<noteq> CHR ''-''" using zd by (auto simp: is_digit_def)
  have ninf: "?s \<noteq> ''Infinity''" using zd ip by (auto simp: is_digit_def)
  have "parse_signed ?s = parse_unsigned ?s" using ip zsign by simp
  also have "\<dots> = parse_fraction ip (CHR ''.'' # fp)"
    using ninf assms(2) by (simp add: parse_unsigned_def takeWhile_digits_point dropWhile_digits_point)
  also have "\<dots> = parse_mantissa ip fp []"
    using assms(3) by (simp add: takeWhile_all dropWhile_all)
  also have "\<dots> = Some (round64 (of_nat (digits_val (ip @ fp)) * pow10 (- int (length fp))))"
    using assms(1) by (simp add: parse_mantissa_def)
  finally show ?thesis
    using nondec t by (simp add: StringToNumber_def parse_literal_def)
qed

lemma pad_zeros_props:
  assumes "list_all is_digit m" "m \<noteq> []"
  shows "list_all is_digit (pad_zeros f m)" "f < length (pad_zeros f m)"
        "digits_val (pad_zeros f m) = digits_val m"
  using assms
  by (auto simp: pad_zeros_def digits_val_zeros is_digit_def list_all_iff)

lemma toFixed_abs_parse:
  assumes "0 \<le> a" "a < 10 ^ 21"
  shows "StringToNumber (toFixed_abs 2 a) = round64 (of_int \<lfloor>a * 100 + 1 / 2\<rfloor> / 100)"
proof -
  define n where "n = nat \<lfloor>a * 100 + 1 / 2\<rfloor>"
  define ds where "ds = pad_zeros 2 (digits_of n)"
  define ip where "ip = take (length ds - 2) ds"
  define fp where "fp = drop (length ds - 2) ds"
  have dig: "list_all is_digit ds" and len: "2 < length ds" and val: "digits_val ds = n"
    unfolding ds_def
    using pad_zeros_props [OF digits_of_all_digits digits_of_nonempty, of 2 n]
    by (simp_all add: digits_val_digits_of)
  have ipfp: "ip @ fp = ds" by (simp add: ip_def fp_def)
  have "ip \<noteq> []" using len by (auto simp: ip_def)
  moreover have "list_all is_digit ip" "list_all is_digit fp"
    using dig ipfp by (metis list_all_append)+
  moreover have lfp: "length fp = 2" using len by (simp add: fp_def)
  ultimately have "StringToNumber (ip @ CHR ''.'' # fp) = round64 (of_nat n * pow10 (- 2))"
    using StringToNumber_decimal [of ip fp] by (simp add: ipfp val)
  moreover have "toFixed_abs 2 a = ip @ CHR ''.'' # fp"
    using assms by (simp add: toFixed_abs_def insert_point_def ip_def fp_def ds_def n_def)
  moreover have "(of_nat n :: real) = of_int \<lfloor>a * 100 + 1 / 2\<rfloor>"
    using assms by (simp add: n_def)
  ultimately show ?thesis by (simp add: pow10_def)
qed

lemma toFixed2_parse:
  assumes "0 \<le> a" "a < 10 ^ 21"
  shows "StringToNumber (toFixed 2 (Fin a)) = round64 (of_int \<lfloor>a * 100 + 1 / 2\<rfloor> / 100)"
  using assms toFixed_abs_parse by simp

subsection \<open>Evaluation on examples\<close>

lemma replicate_num: "replicate (numeral k) x = x # replicate (pred_numeral k) x"
  by (simp add: numeral_eq_Suc)

lemmas num_eval = round64_def ulp_of_def round_ulp_def overflow64_def ilog2_def pow2_def pow10_def
  round_half_even_def round_tie_even_def bitlen.simps

lemmas str_eval = is_whitespace_def trim_def lower_char_def upper_chars_def lower_chars_def
  toLowerCase_def digit_char_def digits_of.simps is_digit_def digit_val_def digits_val_def
  pad_zeros_def insert_point_def toFixed_abs_def parse_mantissa_def parse_unsigned_def
  parse_literal_def StringToNumber_def replicate_num

lemmas date_eval = msPerDay_def Day_def DayFromYear_def year_search.simps YearFromDay_def
  YearFromTime_def DayWithinYear_def month_start_def leap_days_def isLeapYear_def
  month_of_day_def MonthFromTime_def DateFromTime_def HourFromTime_def MinFromTime_def
  SecFromTime_def msFromTime_def pad_digits_def year_string_def iso_string_def
  digits_of.simps digit_char_def replicate_num

lemmas product_eval = name_setter_def price_setter_def price_check_def string_of_def isNaN_def
  Product_new_def coalesce_def nullish_def generateId_def slice_def Date_now_def

lemma price_check_10: "price_check (Fin 10) = Inr (Fin 10)"
  by (simp add: product_eval str_eval num_eval)

lemma price_check_30: "price_check (Fin 30) = Inr (Fin 30)"
  by (simp add: product_eval str_eval num_eval)

lemma price_check_55: "price_check (Fin 55) = Inr (Fin 55)"
  by (simp add: product_eval str_eval num_eval)

lemma name_setter_phone: "name_setter (Prim (String ''Phone Case'')) = Inr ''Phone Case''"
  by (simp add: product_eval str_eval)

lemma addProduct_phone_case:
  "addProduct env_a (Prim (String ''Phone Case'')) (Prim (Number (Fin 10))) mona =
     Inr (phone_case, mona\<lparr>u_products := [phone_case]\<rparr>)"
  by (simp add: addProduct_def Product_new_def name_setter_phone price_setter_def price_check_10
      coalesce_def nullish_def generateId_def slice_def Date_now_def env_a_def mona_def User_new_def
      phone_case_def)

section \<open>User and AdminUser: deleting a product\<close>

lemma findIndex_None: "findIndex P xs = None \<longleftrightarrow> (\<forall>x\<in>set xs. \<not> P x)"
  by (induction xs) auto

lemma findIndex_Some:
  "findIndex P xs = Some i \<Longrightarrow>
     i < length xs \<and> P (xs ! i) \<and> (\<forall>x\<in>set (take i xs). \<not> P x)"
proof (induction xs arbitrary: i)
  case Nil
  then show ?case by simp
next
  case (Cons x xs)
  show ?case
  proof (cases "P x")
    case True
    with Cons.prems show ?thesis by simp
  next
    case False
    with Cons.prems obtain j where j: "findIndex P xs = Some j" "i = Suc j"
      by (cases "findIndex P xs") auto
    with Cons.IH [OF j(1)] False show ?thesis by simp
  qed
qed

lemma deleteProduct_absent:
  "(\<forall>p\<in>set (u_products u). \<not> has_id k p) \<Longrightarrow>
     deleteProduct k u = Inl (NotFoundError ''Product not found'')"
  using findIndex_None [of "has_id k" "u_products u"] by (simp add: deleteProduct_def)

lemma deleteProduct_present:
  assumes "\<exists>p\<in>set (u_products u). has_id k p"
  shows "\<exists>pre d post. u_products u = pre @ d # post \<and> (\<forall>p\<in>set pre. \<not> has_id k p) \<and>
           has_id k d \<and> deleteProduct k u = Inr (d, u\<lparr>u_products := pre @ post\<rparr>)"
proof -
  from assms obtain i where i: "findIndex (has_id k) (u_products u) = Some i"
    using findIndex_None [of "has_id k" "u_products u"] by (cases "findIndex (has_id k) (u_products u)") auto
  note f = findIndex_Some [OF i]
  let ?ps = "u_products u"
  have "?ps = take i ?ps @ ?ps ! i # drop (Suc i) ?ps"
    using f by (simp add: id_take_nth_drop)
  moreover have "deleteProduct k u = Inr (?ps ! i, u\<lparr>u_products := take i ?ps @ drop (Suc i) ?ps\<rparr>)"
    using i by (simp add: deleteProduct_def)
  ultimately show ?thesis using f by blast
qed

text \<open>
  C5.  \<open>deleteProduct\<close> fails with the NotFoundError exactly when no product of the user
  has the id.  When one has, the first such product \<open>d\<close> is removed and returned: the
  collection \<open>pre @ d # post\<close> becomes \<open>pre @ post\<close>, which is what \<open>listProducts\<close> then
  returns; all other products keep their order, and where the products of the user are
  pairwise different the removed one is no longer listed.
\<close>

theorem deleteProduct_removes_exactly:
  "((\<forall>p\<in>set (listProducts u). \<not> has_id k p) \<longrightarrow>
      deleteProduct k u = Inl (NotFoundError ''Product not found'')) \<and>
   ((\<exists>p\<in>set (listProducts u). has_id k p) \<longrightarrow>
      (\<exists>pre d post u'.
         listProducts u = pre @ d # post \<and> (\<forall>p\<in>set pre. \<not> has_id k p) \<and> has_id k d \<and>
         deleteProduct k u = Inr (d, u') \<and> listProducts u' = pre @ post \<and>
         u' = u\<lparr>u_products := pre @ post\<rparr> \<and>
         (distinct (listProducts u) \<longrightarrow> d \<notin> set (listProducts u'))))"
proof (intro conjI impI)
  assume "\<forall>p\<in>set (listProducts u). \<not> has_id k p"
  then show "deleteProduct k u = Inl (NotFoundError ''Product not found'')"
    by (simp add: listProducts_def deleteProduct_absent)
next
  assume "\<exists>p\<in>set (listProducts u). has_id k p"
  then obtain pre d post where
    *: "u_products u = pre @ d # post" "\<forall>p\<in>set pre. \<not> has_id k p" "has_id k d"
       "deleteProduct k u = Inr (d, u\<lparr>u_products := pre @ post\<rparr>)"
    using deleteProduct_present [of u k] by (auto simp: listProducts_def)
  have "distinct (listProducts u) \<longrightarrow> d \<notin> set (pre @ post)"
    using *(1) by (auto simp: listProducts_def)
  with * show "\<exists>pre d post u'.
         listProducts u = pre @ d # post \<and> (\<forall>p\<in>set pre. \<not> has_id k p) \<and> has_id k d \<and>
         deleteProduct k u = Inr (d, u') \<and> listProducts u' = pre @ post \<and>
         u' = u\<lparr>u_products := pre @ post\<rparr> \<and>
         (distinct (listProducts u) \<longrightarrow> d \<notin> set (listProducts u'))"
    by (intro exI [of _ pre] exI [of _ d] exI [of _ post] exI [of _ "u\<lparr>u_products := pre @ post\<rparr>"])
       (simp add: listProducts_def)
qed

lemmas user_eval = deleteProduct_def has_id_def strict_eq_def listProducts_def mona3_def mona_def
  User_new_def phone_case_def power_bank_def shoes_def

theorem deleteProduct_removes_exactly_witness:
  "deleteProduct (Prim (String ''p_zz9y8x7w'')) mona3 =
     Inr (power_bank, mona3\<lparr>u_products := [phone_case, shoes]\<rparr>) \<and>
   power_bank \<notin> set (listProducts (mona3\<lparr>u_products := [phone_case, shoes]\<rparr>)) \<and>
   deleteProduct (Prim (String ''p_none'')) mona3 = Inl (NotFoundError ''Product not found'')"
  using deleteProduct_removes_exactly [of mona3 "Prim (String ''p_zz9y8x7w'')"]
        deleteProduct_removes_exactly [of mona3 "Prim (String ''p_none'')"]
  by (simp add: user_eval)

text \<open>
  The claim behind C7 ends: the capability applies only to deleting a Product from a
  different User's collection, not the admin's own.  The source has no such check: an
  admin that owns a product and passes itself as the target deletes its own product.
\<close>

theorem deleteProductFromUser_own_collection:
  "addProduct env_a (Prim (String ''Phone Case'')) (Prim (Number (Fin 10))) ziad =
     Inr (ziad_case, ziad1) \<and>
   deleteProductFromUser ziad1 (UserInstance ziad1) (Prim (String ''p_a1b2c3d4'')) =
     Inr (ziad_case, ziad)"
  by (simp add: addProduct_def Product_new_def name_setter_phone price_setter_def price_check_10
      coalesce_def nullish_def generateId_def slice_def Date_now_def env_a_def ziad_def ziad1_def
      AdminUser_new_def User_new_def ziad_case_def deleteProductFromUser_def deleteProduct_def
      has_id_def strict_eq_def)

text \<open>
  C7, as the source has it.  \<open>deleteProductFromUser\<close> fails with the TypeMismatchError when
  the target is not an instance of User; for every instance of User, the admin itself
  included, it is \<open>deleteProduct\<close> on the target, so it fails with the NotFoundError of
  \<open>deleteProduct\<close> when the target has no product of that id.
\<close>

theorem deleteProductFromUser_delegates:
  "deleteProductFromUser a (NonUser v) k = Inl (TypeMismatchError ''Target must be a User instance.'') \<and>
   deleteProductFromUser a (UserInstance t) k = deleteProduct k t \<and>
   deleteProductFromUser a (UserInstance a) k = deleteProduct k a \<and>
   ((\<forall>p\<in>set (listProducts t). \<not> has_id k p) \<longrightarrow>
      deleteProductFromUser a (UserInstance t) k = Inl (NotFoundError ''Product not found''))"
  by (simp add: deleteProductFromUser_def listProducts_def deleteProduct_absent)

theorem deleteProductFromUser_delegates_witness:
  "deleteProductFromUser ziad (NonUser (Prim (String ''mona''))) (Prim (String ''p_k3'')) =
     Inl (TypeMismatchError ''Target must be a User instance.'') \<and>
   deleteProductFromUser ziad (UserInstance mona3) (Prim (String ''p_k3'')) =
     Inr (shoes, mona3\<lparr>u_products := [phone_case, power_bank]\<rparr>) \<and>
   deleteProductFromUser ziad (UserInstance mona3) (Prim (String ''p_none'')) =
     Inl (NotFoundError ''Product not found'')"
  using deleteProductFromUser_delegates [of ziad "Prim (String ''mona'')" "Prim (String ''p_k3'')" mona3]
        deleteProductFromUser_delegates [of ziad "Prim (String ''mona'')" "Prim (String ''p_none'')" mona3]
  by (simp add: user_eval)

section \<open>ProductRepository\<close>

lemma Map_get_delete: "Map_get k' (snd (Map_delete k m)) = (if k' = k then None else Map_get k' m)"
  by (simp add: Map_get_def Map_delete_def delete_conv)

text \<open>
  C8.  \<open>delete\<close> returns a boolean and has no error result.  It returns true exactly when
  \<open>getById\<close> finds a product under the id; afterwards nothing is stored under the id, every
  other entry is kept in its place, and a second \<open>delete\<close> of the same id returns false.
\<close>

theorem repo_delete_boolean:
  "fst (repo_delete k r) = (repo_getById k r \<noteq> None) \<and>
   repo_getById k (snd (repo_delete k r)) = None \<and>
   store (snd (repo_delete k r)) = filter (\<lambda>e. fst e \<noteq> k) (store r) \<and>
   fst (repo_delete k (snd (repo_delete k r))) = False"
proof -
  have 1: "fst (repo_delete k r') = (repo_getById k r' \<noteq> None)" for r'
    by (simp add: repo_delete_def repo_getById_def Map_delete_def Map_has_def Map_get_def)
  have 2: "repo_getById k (snd (repo_delete k r)) = None"
    by (simp add: repo_delete_def repo_getById_def Map_delete_def Map_get_def delete_conv)
  have "(\<lambda>(k', _). k \<noteq> k') = (\<lambda>e :: jsval \<times> product. fst e \<noteq> k)"
    by auto
  then have 3: "store (snd (repo_delete k r)) = filter (\<lambda>e. fst e \<noteq> k) (store r)"
    by (simp add: repo_delete_def Map_delete_def AList.delete_eq)
  from 1 [of r] 1 [of "snd (repo_delete k r)"] 2 3 show ?thesis
    by simp
qed

section \<open>Product: the price setter and applyDiscount\<close>

lemma set_price_cases:
  "set_price val p =
     (case Number_fn val of
        Inl e \<Rightarrow> Inl e
      | Inr num \<Rightarrow>
          if isNaN num \<or> num_lt num (Fin 0) then Inl (ValidationError ''Invalid price (must be >= 0).'')
          else Inr (p\<lparr>p_price := StringToNumber (toFixed 2 num)\<rparr>))"
  by (simp add: set_price_def price_setter_def price_check_def split: sum.splits)

text \<open>
  C9.  The price setter converts its argument with \<open>Number\<close>.  When the conversion throws,
  so does the setter; otherwise the setter fails, with the ValidationError, exactly when
  the number is NaN or negative, and else stores \<open>Number(num.toFixed(2))\<close>, which for a
  number below \<open>10^21\<close> is the binary64 value of the decimal with 2 fractional digits
  nearest to it.  A numeric string is converted by \<open>StringToNumber\<close>, null to 0 and true
  to 1.
\<close>

theorem set_price_coerces:
  "(Number_fn val = Inl e \<longrightarrow> set_price val p = Inl e) \<and>
   (Number_fn val = Inr num \<longrightarrow>
      (set_price val p = Inl (ValidationError ''Invalid price (must be >= 0).'') \<longleftrightarrow>
         isNaN num \<or> num_lt num (Fin 0)) \<and>
      (\<not> (isNaN num \<or> num_lt num (Fin 0)) \<longrightarrow>
         set_price val p = Inr (p\<lparr>p_price := StringToNumber (toFixed 2 num)\<rparr>))) \<and>
   (Number_fn val = Inr (Fin a) \<and> 0 \<le> a \<and> a < 10 ^ 21 \<longrightarrow>
      set_price val p = Inr (p\<lparr>p_price := round64 (of_int \<lfloor>a * 100 + 1 / 2\<rfloor> / 100)\<rparr>)) \<and>
   Number_fn (Prim (String s)) = Inr (StringToNumber s) \<and>
   Number_fn (Prim Null) = Inr (Fin 0) \<and>
   Number_fn (Prim (Boolean True)) = Inr (Fin 1)"
  by (auto simp: set_price_cases isNaN_def toFixed2_parse simp del: toFixed.simps)

lemma StringToNumber_12_345: "StringToNumber ''12.345'' = Fin (6949617174986097 / 562949953421312)"
  by (simp add: str_eval num_eval)

lemma round64_12_35: "round64 (247 / 20) = Fin (6952431924753203 / 562949953421312)"
  by (simp add: num_eval)

theorem set_price_coerces_witness:
  "set_price (Prim (String ''12.345'')) phone_case =
     Inr (phone_case\<lparr>p_price := Fin (6952431924753203 / 562949953421312)\<rparr>) \<and>
   set_price (Prim Null) phone_case = Inr (phone_case\<lparr>p_price := Fin 0\<rparr>) \<and>
   set_price (Prim (Boolean True)) phone_case = Inr (phone_case\<lparr>p_price := Fin 1\<rparr>) \<and>
   set_price (Prim (String ''abc'')) phone_case = Inl (ValidationError ''Invalid price (must be >= 0).'') \<and>
   set_price (Prim (Number (Fin (- 1)))) phone_case = Inl (ValidationError ''Invalid price (must be >= 0).'') \<and>
   set_price (Prim (Symbol 9 ''s'')) phone_case = Inl TypeError"
proof -
  have 1: "set_price (Prim (String ''12.345'')) phone_case =
     Inr (phone_case\<lparr>p_price := Fin (6952431924753203 / 562949953421312)\<rparr>)"
    using set_price_coerces [where val = "Prim (String ''12.345'')" and p = phone_case
        and a = "6949617174986097 / 562949953421312"]
    by (simp add: StringToNumber_12_345 round64_12_35)
  have 2: "set_price (Prim Null) phone_case = Inr (phone_case\<lparr>p_price := Fin 0\<rparr>)"
    using set_price_coerces [where val = "Prim Null" and p = phone_case and a = 0]
    by (simp add: num_eval)
  have 3: "set_price (Prim (Boolean True)) phone_case = Inr (phone_case\<lparr>p_price := Fin 1\<rparr>)"
    using set_price_coerces [where val = "Prim (Boolean True)" and p = phone_case and a = 1]
    by (simp add: num_eval)
  have "StringToNumber ''abc'' = NaN" by (simp add: str_eval)
  then have 4: "set_price (Prim (String ''abc'')) phone_case =
      Inl (ValidationError ''Invalid price (must be >= 0).'')"
    using set_price_coerces [where val = "Prim (String ''abc'')" and p = phone_case and num = NaN]
    by (auto simp: isNaN_def)
  have 5: "set_price (Prim (Number (Fin (- 1)))) phone_case =
      Inl (ValidationError ''Invalid price (must be >= 0).'')"
    by (simp add: set_price_cases isNaN_def)
  have 6: "set_price (Prim (Symbol 9 ''s'')) phone_case = Inl TypeError"
    using set_price_coerces [where val = "Prim (Symbol 9 ''s'')" and p = phone_case and e = TypeError]
    by simp
  from 1 2 3 4 5 6 show ?thesis by simp
qed

lemma applyDiscount_cases:
  "applyDiscount percent p =
     (case Number_fn percent of
        Inl e \<Rightarrow> Inl e
      | Inr pc \<Rightarrow>
          if isNaN pc \<or> num_lt pc (Fin 0) \<or> num_gt pc (Fin 100)
          then Inl (ValidationError ''Discount percent must be between 0 and 100.'')
          else Inr (p\<lparr>p_price := discounted (p_price p) pc\<rparr>, discounted (p_price p) pc))"
  by (simp add: applyDiscount_def discount_check_def split: sum.splits)

lemma StringToNumber_5_00: "StringToNumber (toFixed 2 (Fin 5)) = Fin 5"
  by (simp add: str_eval num_eval)

lemma discounted_10_50: "discounted (Fin 10) (Fin 50) = Fin 5"
  by (simp add: discounted_def num_eval StringToNumber_5_00 del: toFixed.simps)










section \<open>Product: the invariant and the id\<close>

lemma StringToNumber_Infinity: "StringToNumber ''Infinity'' = PosInf"
  by (simp add: str_eval)

lemma StringToNumber_NaN: "StringToNumber ''NaN'' = NaN"
  by (simp add: str_eval)

lemma Product_new_priceless: "Product_new env_a infinite_fields = Inr priceless"
  by (simp add: Product_new_def name_setter_phone price_setter_def price_check_def isNaN_def
      StringToNumber_Infinity coalesce_def nullish_def generateId_def slice_def Date_now_def
      env_a_def infinite_fields_def priceless_def)

lemma discounted_inf_100: "discounted PosInf (Fin 100) = NaN"
  by (simp add: discounted_def num_eval inf_of_sgn_def StringToNumber_NaN)

text \<open>
  C1.  The constructor accepts the price Infinity, which is a number and not negative.
  On that Product \<open>applyDiscount(100)\<close> computes \<open>Infinity * 0\<close>, which is NaN, and stores
  it without the check of the price setter: the call succeeds and the price is no longer
  \<open>>= 0\<close>.
\<close>

theorem applyDiscount_stores_NaN:
  "Product_new env_a infinite_fields = Inr priceless \<and>
   product_inv priceless \<and>
   applyDiscount (Prim (Number (Fin 100))) priceless = Inr (priceless\<lparr>p_price := NaN\<rparr>, NaN) \<and>
   \<not> product_inv (priceless\<lparr>p_price := NaN\<rparr>)"
proof -
  have "product_inv priceless"
    by (simp add: product_inv_def priceless_def isNaN_def str_eval)
  moreover have "applyDiscount (Prim (Number (Fin 100))) priceless =
      Inr (priceless\<lparr>p_price := NaN\<rparr>, NaN)"
    by (simp add: applyDiscount_cases isNaN_def num_gt_def discounted_inf_100 priceless_def)
  moreover have "\<not> product_inv (priceless\<lparr>p_price := NaN\<rparr>)"
    by (simp add: product_inv_def isNaN_def)
  ultimately show ?thesis by (simp add: Product_new_priceless)
qed

lemma Product_new_id:
  "Product_new en f = Inr p \<Longrightarrow>
     p_id p = (if nullish (f_id f) then Prim (String (''p_'' @ slice 2 10 (random36 en))) else f_id f)"
  by (auto simp: Product_new_def coalesce_def generateId_def split: sum.splits)

lemma Product_new_phone_case: "Product_new env_a case_fields = Inr phone_case"
  by (simp add: Product_new_def name_setter_phone price_setter_def price_check_10 coalesce_def
      nullish_def generateId_def slice_def Date_now_def env_a_def case_fields_def phone_case_def)

text \<open>
  The claim behind C4 says that two Products constructed without an id have different
  ids.  Two draws of \<open>Math.random\<close> that differ after the eighth digit of their base-36
  expansion give the same id.
\<close>

theorem generated_ids_collide:
  "Product_new env_a case_fields = Inr phone_case \<and>
   Product_new env_a' case_fields = Inr phone_case2 \<and>
   random36 env_a \<noteq> random36 env_a' \<and>
   p_id phone_case = p_id phone_case2"
  by (simp add: Product_new_phone_case)
     (simp add: Product_new_def name_setter_phone price_setter_def price_check_10 coalesce_def
      nullish_def generateId_def slice_def Date_now_def env_a_def env_a'_def case_fields_def
      phone_case_def phone_case2_def)

text \<open>
  C4, as the source has it.  The constructor takes the id it is passed, of whatever type,
  unless that is null or undefined; then the id is the string \<open>p_\<close> followed by the
  characters 2 to 9 of \<open>Math.random().toString(36)\<close>, at most 10 characters in all.  The
  setters and \<open>applyDiscount\<close> leave the id as it is.  Nothing makes ids unique.
\<close>

theorem product_id_assigned_once:
  "(Product_new en f = Inr p \<longrightarrow>
      p_id p = (if nullish (f_id f) then Prim (String (generateId en)) else f_id f)) \<and>
   generateId en = ''p_'' @ take 8 (drop 2 (random36 en)) \<and> length (generateId en) \<le> 10 \<and>
   (set_name v p = Inr p' \<longrightarrow> p_id p' = p_id p) \<and>
   (set_price v p = Inr p' \<longrightarrow> p_id p' = p_id p) \<and>
   (applyDiscount v p = Inr (p', x) \<longrightarrow> p_id p' = p_id p)"
  by (auto simp: Product_new_id generateId_def slice_def set_name_def set_price_def
      applyDiscount_cases split: sum.splits if_splits)

theorem product_id_assigned_once_witness:
  "Product_new env_a case_fields = Inr phone_case \<and>
   p_id phone_case = Prim (String ''p_a1b2c3d4'') \<and>
   generateId env_a = ''p_a1b2c3d4'' \<and>
   applyDiscount (Prim (Number (Fin 50))) phone_case = Inr (phone_case\<lparr>p_price := Fin 5\<rparr>, Fin 5) \<and>
   p_id (phone_case\<lparr>p_price := Fin 5\<rparr>) = Prim (String ''p_a1b2c3d4'')"
proof -
  have a: "applyDiscount (Prim (Number (Fin 50))) phone_case = Inr (phone_case\<lparr>p_price := Fin 5\<rparr>, Fin 5)"
    by (simp add: applyDiscount_cases isNaN_def num_gt_def discounted_10_50 phone_case_def)
  have g: "generateId env_a = ''p_a1b2c3d4''"
    by (simp add: generateId_def slice_def env_a_def)
  have n: "nullish (f_id case_fields)"
    by (simp add: nullish_def case_fields_def)
  from product_id_assigned_once [where en = env_a and f = case_fields and p = phone_case
      and v = "Prim (Number (Fin 50))" and p' = "phone_case\<lparr>p_price := Fin 5\<rparr>" and x = "Fin 5"]
    a g n Product_new_phone_case
  show ?thesis by simp
qed

section \<open>ProductService: discount\<close>

lemma Map_get_set: "Map_get k' (Map_set k v m) = (if k' = k then Some v else Map_get k' m)"
  by (simp add: Map_get_def Map_set_def update_conv')

lemma Map_has_set: "Map_has k' (Map_set k v m) = (k' = k \<or> Map_has k' m)"
  by (simp add: Map_has_def Map_set_def update_conv')

lemma Map_set_twice: "Map_set k v (Map_set k v m) = Map_set k v m"
  unfolding Map_set_def by (induction m) auto

lemma applyDiscount_id: "applyDiscount percent p = Inr (p', x) \<Longrightarrow> p_id p' = p_id p"
  by (auto simp: applyDiscount_cases split: sum.splits if_splits)

lemma discount_found:
  assumes "repo_getById k (s_repo sv) = Some p" "p_id p = k" "applyDiscount percent p = Inr (p', x)"
  shows "discount k percent sv =
           (Inr p', sv\<lparr>s_repo := (s_repo sv)\<lparr>store := Map_set k p' (store (s_repo sv))\<rparr>\<rparr>)"
    and "repo_update (ProductInstance p') (s_repo sv) =
           Inr (p', (s_repo sv)\<lparr>store := Map_set k p' (store (s_repo sv))\<rparr>)"
proof -
  have i: "p_id p' = k" using assms applyDiscount_id by blast
  have h: "Map_has k (store (s_repo sv))"
    using assms(1) by (simp add: repo_getById_def Map_get_def Map_has_def)
  show "discount k percent sv =
           (Inr p', sv\<lparr>s_repo := (s_repo sv)\<lparr>store := Map_set k p' (store (s_repo sv))\<rparr>\<rparr>)"
    using assms i by (simp add: discount_def persist_def mutate_stored_def repo_update_def
        Map_has_set Map_set_twice)
  show "repo_update (ProductInstance p') (s_repo sv) =
           Inr (p', (s_repo sv)\<lparr>store := Map_set k p' (store (s_repo sv))\<rparr>)"
    using i h by (simp add: repo_update_def)
qed

lemma name_setter_watch: "name_setter (Prim (String ''Watch'')) = Inr ''Watch''"
  by (simp add: product_eval str_eval)

lemma price_check_120: "price_check (Fin 120) = Inr (Fin 120)"
  by (simp add: product_eval str_eval num_eval)

lemma StringToNumber_108_00: "StringToNumber (toFixed 2 (Fin 108)) = Fin 108"
  by (simp add: str_eval num_eval)

lemma discounted_120_10: "discounted (Fin 120) (Fin 10) = Fin 108"
  by (simp add: discounted_def num_eval StringToNumber_108_00 del: toFixed.simps)

lemma addNewProduct_watch:
  "addNewProduct en (Prim (String ''Watch'')) (Prim (Number (Fin 120))) (Prim (String ''Mona'')) sv =
     Inr (\<lparr>p_id = Prim (String (generateId en)), p_name = ''Watch'', p_price = Fin 120,
           p_owner = Prim (String ''Mona''), p_createdAt = Date_now en\<rparr>,
          sv\<lparr>s_repo := (s_repo sv)\<lparr>store := Map_set (Prim (String (generateId en)))
             \<lparr>p_id = Prim (String (generateId en)), p_name = ''Watch'', p_price = Fin 120,
              p_owner = Prim (String ''Mona''), p_createdAt = Date_now en\<rparr> (store (s_repo sv))\<rparr>\<rparr>)"
  by (simp add: addNewProduct_def Product_new_def name_setter_watch price_setter_def
      price_check_120 coalesce_def nullish_def repo_create_def)

text \<open>
  C6.  \<open>discount\<close> fails with the NotFoundError when \<open>getById\<close> finds nothing under the
  id, and with the error of \<open>applyDiscount\<close> when that fails, the repository being left
  as it was.  Otherwise, for a product stored under its own id, it returns the discounted
  Product, which \<open>update\<close> stores under the id: \<open>getById\<close> then returns it and every other
  entry is as before.  After \<open>addNewProduct("Watch", 120, "Mona")\<close>, whatever the
  repository held and whatever id was generated, \<open>discount(id, 10)\<close> leaves the price 108
  stored under that id.
\<close>

theorem discount_persists:
  "(repo_getById k (s_repo sv) = None \<longrightarrow>
      discount k percent sv = (Inl (NotFoundError ''Product not found''), sv)) \<and>
   (repo_getById k (s_repo sv) = Some p \<and> applyDiscount percent p = Inl e \<longrightarrow>
      discount k percent sv = (Inl e, sv)) \<and>
   (repo_getById k (s_repo sv) = Some p \<and> p_id p = k \<and> applyDiscount percent p = Inr (p', x) \<longrightarrow>
      fst (discount k percent sv) = Inr p' \<and>
      repo_update (ProductInstance p') (s_repo sv) = Inr (p', s_repo (snd (discount k percent sv))) \<and>
      repo_getById k (s_repo (snd (discount k percent sv))) = Some p' \<and>
      (k' \<noteq> k \<longrightarrow> repo_getById k' (s_repo (snd (discount k percent sv))) = repo_getById k' (s_repo sv))) \<and>
   (\<exists>w sv1 w' sv2.
      addNewProduct en (Prim (String ''Watch'')) (Prim (Number (Fin 120))) (Prim (String ''Mona'')) sv0 =
        Inr (w, sv1) \<and>
      discount (p_id w) (Prim (Number (Fin 10))) sv1 = (Inr w', sv2) \<and>
      p_price w' = Fin 108 \<and>
      repo_getById (p_id w) (s_repo sv2) = Some w')"
proof -
  have 1: "repo_getById k (s_repo sv) = None \<longrightarrow>
      discount k percent sv = (Inl (NotFoundError ''Product not found''), sv)"
    by (simp add: discount_def)
  have 2: "repo_getById k (s_repo sv) = Some p \<and> applyDiscount percent p = Inl e \<longrightarrow>
      discount k percent sv = (Inl e, sv)"
    by (simp add: discount_def)
  have 3: "repo_getById k (s_repo sv) = Some p \<and> p_id p = k \<and> applyDiscount percent p = Inr (p', x) \<longrightarrow>
      fst (discount k percent sv) = Inr p' \<and>
      repo_update (ProductInstance p') (s_repo sv) = Inr (p', s_repo (snd (discount k percent sv))) \<and>
      repo_getById k (s_repo (snd (discount k percent sv))) = Some p' \<and>
      (k' \<noteq> k \<longrightarrow> repo_getById k' (s_repo (snd (discount k percent sv))) = repo_getById k' (s_repo sv))"
  proof (intro impI, elim conjE)
    assume a: "repo_getById k (s_repo sv) = Some p" "p_id p = k" "applyDiscount percent p = Inr (p', x)"
    note d = discount_found [OF a]
    show "fst (discount k percent sv) = Inr p' \<and>
      repo_update (ProductInstance p') (s_repo sv) = Inr (p', s_repo (snd (discount k percent sv))) \<and>
      repo_getById k (s_repo (snd (discount k percent sv))) = Some p' \<and>
      (k' \<noteq> k \<longrightarrow> repo_getById k' (s_repo (snd (discount k percent sv))) = repo_getById k' (s_repo sv))"
      by (simp add: d repo_getById_def Map_get_set)
  qed
  define w where "w = \<lparr>p_id = Prim (String (generateId en)), p_name = ''Watch'', p_price = Fin 120,
           p_owner = Prim (String ''Mona''), p_createdAt = Date_now en\<rparr>"
  define sv1 where "sv1 = sv0\<lparr>s_repo := (s_repo sv0)\<lparr>store := Map_set (p_id w) w (store (s_repo sv0))\<rparr>\<rparr>"
  have add: "addNewProduct en (Prim (String ''Watch'')) (Prim (Number (Fin 120))) (Prim (String ''Mona'')) sv0 =
        Inr (w, sv1)"
    by (simp add: addNewProduct_watch w_def sv1_def)
  have g: "repo_getById (p_id w) (s_repo sv1) = Some w"
    by (simp add: sv1_def repo_getById_def Map_get_set)
  have ad: "applyDiscount (Prim (Number (Fin 10))) w = Inr (w\<lparr>p_price := Fin 108\<rparr>, Fin 108)"
    by (simp add: applyDiscount_cases isNaN_def num_gt_def discounted_120_10 w_def)
  note d = discount_found [OF g refl ad]
  have 4: "\<exists>w sv1 w' sv2.
      addNewProduct en (Prim (String ''Watch'')) (Prim (Number (Fin 120))) (Prim (String ''Mona'')) sv0 =
        Inr (w, sv1) \<and>
      discount (p_id w) (Prim (Number (Fin 10))) sv1 = (Inr w', sv2) \<and>
      p_price w' = Fin 108 \<and>
      repo_getById (p_id w) (s_repo sv2) = Some w'"
    by (intro exI [of _ w] exI [of _ sv1] exI [of _ "w\<lparr>p_price := Fin 108\<rparr>"]
          exI [of _ "sv1\<lparr>s_repo := (s_repo sv1)\<lparr>store := Map_set (p_id w) (w\<lparr>p_price := Fin 108\<rparr>) (store (s_repo sv1))\<rparr>\<rparr>"])
       (simp add: add d repo_getById_def Map_get_set)
  from 1 2 3 4 show ?thesis by blast
qed

lemmas service_eval = service0_def service1_def service2_def ProductService_new_def
  ProductRepository_new_def watch_def env_w_def repo_getById_def Map_get_def Map_set_def
  generateId_def slice_def Date_now_def

theorem discount_persists_witness:
  "addNewProduct env_w (Prim (String ''Watch'')) (Prim (Number (Fin 120))) (Prim (String ''Mona'')) service0 =
     Inr (watch, service1) \<and>
   discount (Prim (String ''p_w4tch000'')) (Prim (Number (Fin 10))) service1 =
     (Inr (watch\<lparr>p_price := Fin 108\<rparr>), service2) \<and>
   repo_getById (Prim (String ''p_w4tch000'')) (s_repo service2) = Some (watch\<lparr>p_price := Fin 108\<rparr>) \<and>
   discount (Prim (String ''p_none'')) (Prim (Number (Fin 10))) service1 =
     (Inl (NotFoundError ''Product not found''), service1) \<and>
   discount (Prim (String ''p_w4tch000'')) (Prim (Number (Fin 150))) service1 =
     (Inl (ValidationError ''Discount percent must be between 0 and 100.''), service1)"
proof -
  have a: "addNewProduct env_w (Prim (String ''Watch'')) (Prim (Number (Fin 120))) (Prim (String ''Mona'')) service0 =
     Inr (watch, service1)"
    by (simp add: addNewProduct_watch service_eval)
  have g: "repo_getById (Prim (String ''p_w4tch000'')) (s_repo service1) = Some watch"
    by (simp add: service_eval)
  have n: "repo_getById (Prim (String ''p_none'')) (s_repo service1) = None"
    by (simp add: service_eval)
  have i: "p_id watch = Prim (String ''p_w4tch000'')"
    by (simp add: watch_def)
  have ad: "applyDiscount (Prim (Number (Fin 10))) watch = Inr (watch\<lparr>p_price := Fin 108\<rparr>, Fin 108)"
    by (simp add: applyDiscount_cases isNaN_def num_gt_def discounted_120_10 watch_def)
  have bad: "applyDiscount (Prim (Number (Fin 150))) watch =
      Inl (ValidationError ''Discount percent must be between 0 and 100.'')"
    by (simp add: applyDiscount_cases isNaN_def num_gt_def)
  note t1 = discount_persists [where k = "Prim (String ''p_w4tch000'')" and sv = service1
      and p = watch and percent = "Prim (Number (Fin 10))" and p' = "watch\<lparr>p_price := Fin 108\<rparr>"
      and x = "Fin 108" and k' = "Prim (String ''p_none'')" and e = TypeError]
  note t2 = discount_persists [where k = "Prim (String ''p_none'')" and sv = service1]
  note t3 = discount_persists [where k = "Prim (String ''p_w4tch000'')" and sv = service1
      and p = watch and percent = "Prim (Number (Fin 150))"
      and e = "ValidationError ''Discount percent must be between 0 and 100.''"]
  from t1 g i ad have f: "fst (discount (Prim (String ''p_w4tch000'')) (Prim (Number (Fin 10))) service1) =
      Inr (watch\<lparr>p_price := Fin 108\<rparr>)"
    and u: "repo_update (ProductInstance (watch\<lparr>p_price := Fin 108\<rparr>)) (s_repo service1) =
      Inr (watch\<lparr>p_price := Fin 108\<rparr>,
           s_repo (snd (discount (Prim (String ''p_w4tch000'')) (Prim (Number (Fin 10))) service1)))"
    by blast+
  have "repo_update (ProductInstance (watch\<lparr>p_price := Fin 108\<rparr>)) (s_repo service1) =
      Inr (watch\<lparr>p_price := Fin 108\<rparr>, s_repo service2)"
    by (simp add: repo_update_def Map_has_def service_eval)
  with u have "s_repo (snd (discount (Prim (String ''p_w4tch000'')) (Prim (Number (Fin 10))) service1)) =
      s_repo service2"
    by simp
  then have "snd (discount (Prim (String ''p_w4tch000'')) (Prim (Number (Fin 10))) service1) = service2"
    by (cases "snd (discount (Prim (String ''p_w4tch000'')) (Prim (Number (Fin 10))) service1)")
       (simp add: service2_def)
  with f have b: "discount (Prim (String ''p_w4tch000'')) (Prim (Number (Fin 10))) service1 =
     (Inr (watch\<lparr>p_price := Fin 108\<rparr>), service2)"
    by (simp add: prod_eq_iff)
  have c: "repo_getById (Prim (String ''p_w4tch000'')) (s_repo service2) = Some (watch\<lparr>p_price := Fin 108\<rparr>)"
    by (simp add: service_eval)
  from t2 n have d: "discount (Prim (String ''p_none'')) (Prim (Number (Fin 10))) service1 =
     (Inl (NotFoundError ''Product not found''), service1)"
    by blast
  from t3 g bad have e: "discount (Prim (String ''p_w4tch000'')) (Prim (Number (Fin 150))) service1 =
     (Inl (ValidationError ''Discount percent must be between 0 and 100.''), service1)"
    by blast
  from a b c d e show ?thesis by simp
qed

section \<open>Search by name\<close>






text \<open>A Date of 14 November 2023, 22:13:20 UTC, as the three hosts print it.\<close>

lemmas date_string_eval = date_to_string_def local_date_time_string_def offset_string_def
  LocalTime_def WeekDay_def weekday_name_def month_name_def date_year_string_def


lemma date_to_string_india:
  "date_to_string zone_india (Some 1700000000000) =
     ''Wed Nov 15 2023 03:43:20 GMT+0530 (India Standard Time)''"
  by (simp add: date_string_eval zone_india_def date_eval)

lemma date_to_string_arizona:
  "date_to_string zone_arizona (Some 1700000000000) =
     ''Tue Nov 14 2023 15:13:20 GMT-0700 (Mountain Standard Time)''"
  by (simp add: date_string_eval zone_arizona_def date_eval)











section \<open>Dates: the ISO string and back\<close>




























section \<open>Product: serialisation\<close>








end
